theory Spec2Isabelle
  imports Main "HOL-Library.Word" "HOL-Library.AList"
begin

unbundle bit_operations_syntax

section \<open>JavaScript values\<close>

text \<open>
  The methods of \<^verbatim>\<open>Collection\<close> (src/src/collection.ts) take arguments of type
  \<^verbatim>\<open>any\<close>, so the embedding works over a universe of JavaScript values.

  \<^item> Numbers are integers (\<open>JNum\<close>); fractions, infinities and NaN are not modelled.
  \<^item> A function value carries its source text (\<open>JFunc\<close>), which is what
    \<^verbatim>\<open>toString()\<close> returns.
  \<^item> A \<^verbatim>\<open>Buffer\<close> is its list of bytes (\<open>JBuf\<close>).
  \<^item> An object is the list of its own enumerable properties, in insertion order. An
    object that the code only reads, or that it has just created, is carried by value
    (\<open>JObj\<close>); an object whose identity the caller can observe lives in the store and
    is named by its address (\<open>JRef\<close>), so that a write through one name is seen
    through every other.
  \<^item> Prototype chains are not modelled: reading a property that an object does not own
    gives \<^verbatim>\<open>undefined\<close>, and a write under a key that the code names creates or
    replaces an own property. Where \<^verbatim>\<open>find\<close> writes under a key that the caller
    chooses, the write goes through \<open>put_property\<close>, which knows the accessor
    \<^verbatim>\<open>__proto__\<close>; \<^verbatim>\<open>Object.assign\<close> is the copy of the own properties, which it
    is for a source that owns no property of that name (\<open>proto_free\<close>). Arrays,
    buffers and functions own only what JavaScript gives them
    (indices and \<^verbatim>\<open>length\<close>); a named property written to one is not
    represented.
\<close>

datatype jsval =
    JUndefined
  | JNull
  | JBool bool
  | JNum int
  | JStr string
  | JFunc string
  | JBuf "8 word list"
  | JArr "jsval list"
  | JObj "(string \<times> jsval) list"
  | JRef nat

type_synonym props = "(string \<times> jsval) list"

text \<open>The store: the objects that have an identity, by address.\<close>

type_synonym store = "props list"

text \<open>
  Errors are values. \<open>Err name message\<close> is a thrown \<^verbatim>\<open>Error\<close> with that
  \<^verbatim>\<open>name\<close> and \<^verbatim>\<open>message\<close>.
\<close>

datatype error = Err (err_name: string) (err_message: string)

fun typeof :: "jsval \<Rightarrow> string" where
  "typeof JUndefined = ''undefined''"
| "typeof JNull = ''object''"
| "typeof (JBool _) = ''boolean''"
| "typeof (JNum _) = ''number''"
| "typeof (JStr _) = ''string''"
| "typeof (JFunc _) = ''function''"
| "typeof (JBuf _) = ''object''"
| "typeof (JArr _) = ''object''"
| "typeof (JObj _) = ''object''"
| "typeof (JRef _) = ''object''"

text \<open>Truthiness, as \<^verbatim>\<open>if (v)\<close>, \<^verbatim>\<open>!v\<close>, \<^verbatim>\<open>a || b\<close> and \<^verbatim>\<open>c ? a : b\<close> test it.\<close>

fun truthy :: "jsval \<Rightarrow> bool" where
  "truthy JUndefined = False"
| "truthy JNull = False"
| "truthy (JBool b) = b"
| "truthy (JNum n) = (n \<noteq> 0)"
| "truthy (JStr s) = (s \<noteq> [])"
| "truthy _ = True"

text \<open>\<^verbatim>\<open>a || b\<close>\<close>

definition js_or :: "jsval \<Rightarrow> jsval \<Rightarrow> jsval" where
  "js_or a b = (if truthy a then a else b)"

text \<open>\<^verbatim>\<open>v == null\<close>: true of \<^verbatim>\<open>null\<close> and \<^verbatim>\<open>undefined\<close> only.\<close>

fun nullish :: "jsval \<Rightarrow> bool" where
  "nullish JUndefined = True"
| "nullish JNull = True"
| "nullish _ = False"

text \<open>
  \<^verbatim>\<open>a === b\<close> and \<^verbatim>\<open>a !== b\<close>. The code compares with string and boolean
  literals only, where strict equality is equality of values.
\<close>

definition strict_eq :: "jsval \<Rightarrow> jsval \<Rightarrow> bool" where
  "strict_eq a b = (a = b)"

definition strict_ne :: "jsval \<Rightarrow> jsval \<Rightarrow> bool" where
  "strict_ne a b = (\<not> strict_eq a b)"

fun isArray :: "jsval \<Rightarrow> bool" where
  "isArray (JArr _) = True"
| "isArray _ = False"

fun isBuffer :: "jsval \<Rightarrow> bool" where
  "isBuffer (JBuf _) = True"
| "isBuffer _ = False"

subsection \<open>Numbers as decimal text\<close>

definition digit_char :: "nat \<Rightarrow> char" where
  "digit_char d = ''0123456789'' ! d"

fun show_nat :: "nat \<Rightarrow> string" where
  "show_nat n = (if n < 10 then [digit_char n] else show_nat (n div 10) @ [digit_char (n mod 10)])"

declare show_nat.simps [simp del]

definition show_int :: "int \<Rightarrow> string" where
  "show_int i = (if i < 0 then CHR ''-'' # show_nat (nat (- i)) else show_nat (nat i))"

subsection \<open>Properties\<close>

definition lookup :: "props \<Rightarrow> string \<Rightarrow> jsval" where
  "lookup ps k = (case map_of ps k of None \<Rightarrow> JUndefined | Some v \<Rightarrow> v)"

definition deref :: "store \<Rightarrow> nat \<Rightarrow> props" where
  "deref st a = (if a < length st then st ! a else [])"

definition indices :: "nat \<Rightarrow> string list" where
  "indices n = map show_nat [0..<n]"

text \<open>
  The own enumerable properties of a value, as \<^verbatim>\<open>Object.assign\<close>,
  \<^verbatim>\<open>Object.keys\<close> and \<^verbatim>\<open>for (key in v)\<close> see them: a string, an array
  and a buffer have their indices, the other primitives have none. An object has each
  key once: in a property list that repeats a key, the first entry is the property.
\<close>

fun own_props :: "store \<Rightarrow> jsval \<Rightarrow> props" where
  "own_props st (JObj ps) = AList.clearjunk ps"
| "own_props st (JRef a) = AList.clearjunk (deref st a)"
| "own_props st (JArr xs) = zip (indices (length xs)) xs"
| "own_props st (JStr s) = zip (indices (length s)) (map (\<lambda>c. JStr [c]) s)"
| "own_props st (JBuf bs) = zip (indices (length bs)) (map (\<lambda>b. JNum (uint b)) bs)"
| "own_props st _ = []"

text \<open>
  \<^verbatim>\<open>v.k\<close>. The code reads properties only of values it has found to be neither
  \<^verbatim>\<open>null\<close> nor \<^verbatim>\<open>undefined\<close>, so the read never throws.
\<close>

fun js_get :: "store \<Rightarrow> jsval \<Rightarrow> string \<Rightarrow> jsval" where
  "js_get st (JArr xs) k = (if k = ''length'' then JNum (int (length xs)) else lookup (own_props st (JArr xs)) k)"
| "js_get st (JStr s) k = (if k = ''length'' then JNum (int (length s)) else lookup (own_props st (JStr s)) k)"
| "js_get st (JBuf bs) k = (if k = ''length'' then JNum (int (length bs)) else lookup (own_props st (JBuf bs)) k)"
| "js_get st v k = lookup (own_props st v) k"

text \<open>
  \<^verbatim>\<open>Object.assign(target, source)\<close> on the properties: every own property of the
  source is written to the target, in order.
\<close>

definition Object_assign :: "props \<Rightarrow> props \<Rightarrow> props" where
  "Object_assign target source = fold (\<lambda>(k, v) t. AList.update k v t) source target"

text \<open>
  \<^verbatim>\<open>object[key] = value\<close> on a plain object, for a key that the caller chooses. The
  key \<^verbatim>\<open>__proto__\<close> is the accessor that a plain object inherits: the write calls its
  setter and makes no own property. The setter ignores a number; an object it would
  make the prototype, which the model does not hold.
\<close>

definition put_property :: "props \<Rightarrow> string \<Rightarrow> jsval \<Rightarrow> props" where
  "put_property object key v =
     (if key = ''__proto__'' then object else AList.update key v object)"

text \<open>
  The property key a value is converted to when it indexes an object
  (\<^verbatim>\<open>result[field]\<close>): a string is itself, the other primitives are their text, an
  array is its elements' text joined by commas, a plain object is
  \<^verbatim>\<open>[object Object]\<close>, a function its source, a buffer its bytes as characters.
\<close>

fun join_comma :: "string list \<Rightarrow> string" where
  "join_comma [] = []"
| "join_comma [s] = s"
| "join_comma (s # t # ss) = s @ '','' @ join_comma (t # ss)"

fun to_key :: "jsval \<Rightarrow> string" where
  "to_key JUndefined = ''undefined''"
| "to_key JNull = ''null''"
| "to_key (JBool b) = (if b then ''true'' else ''false'')"
| "to_key (JNum n) = show_int n"
| "to_key (JStr s) = s"
| "to_key (JFunc src) = src"
| "to_key (JBuf bs) = map (\<lambda>b. char_of (unat b)) bs"
| "to_key (JArr xs) = join_comma (map (\<lambda>x. if nullish x then [] else to_key x) xs)"
| "to_key (JObj _) = ''[object Object]''"
| "to_key (JRef _) = ''[object Object]''"

section \<open>The collection\<close>

text \<open>
  The internal state \<^verbatim>\<open>this.s\<close> that the constructor of \<^verbatim>\<open>Collection\<close> fills
  in. \<^verbatim>\<open>pkFactory\<close> and \<^verbatim>\<open>topology\<close> are left out: the methods below only
  pass them on. The namespace is the pair of the database name and the collection name.
\<close>

record collection =
  s_db :: jsval
  s_options :: jsval
  s_namespace :: "string \<times> string"
  s_readPreference :: jsval
  s_slaveOk :: jsval
  s_serializeFunctions :: jsval
  s_raw :: jsval
  s_promoteLongs :: jsval
  s_promoteValues :: jsval
  s_promoteBuffers :: jsval
  s_internalHint :: jsval
  s_collectionHint :: jsval
  s_readConcern :: jsval
  s_writeConcern :: jsval

text \<open>
  \<^verbatim>\<open>this.s.namespace.toString()\<close>: the getter \<^verbatim>\<open>namespace\<close> documents the format
  as \<^verbatim>\<open>${this.dbName}.${this.collectionName}\<close>.
\<close>

definition namespace_toString :: "string \<times> string \<Rightarrow> string" where
  "namespace_toString ns = fst ns @ ''.'' @ snd ns"

text \<open>The getters \<^verbatim>\<open>readConcern\<close> and \<^verbatim>\<open>readPreference\<close>.\<close>

definition readConcern :: "store \<Rightarrow> collection \<Rightarrow> jsval" where
  "readConcern st this =
     (if nullish (s_readConcern this) then js_get st (s_db this) ''readConcern''
      else s_readConcern this)"

definition readPreference :: "store \<Rightarrow> collection \<Rightarrow> jsval" where
  "readPreference st this =
     (if nullish (s_readPreference this) then js_get st (s_db this) ''readPreference''
      else s_readPreference this)"

definition mergeKeys :: "string list" where
  "mergeKeys = [''ignoreUndefined'']"

subsection \<open>What the other modules contribute\<close>

text \<open>
  \<^verbatim>\<open>normalizeHintField\<close> and \<^verbatim>\<open>formattedOrderClause\<close> come from
  \<^verbatim>\<open>./utils\<close>, which is not among the sources, and the specification does not fix
  the canonical shapes they produce. They are parameters of the model.
\<close>

record helpers =
  normalizeHintField :: "jsval \<Rightarrow> jsval"
  formattedOrderClause :: "jsval \<Rightarrow> jsval"

text \<open>
  Modelled from the spec: the constant \<^verbatim>\<open>ReadPreference.PRIMARY\<close> of
  \<^verbatim>\<open>./read_preference\<close>, the primary-only read target.
\<close>

definition ReadPreference_PRIMARY :: jsval where
  "ReadPreference_PRIMARY = JStr ''primary''"

text \<open>
  Modelled from the spec: \<^verbatim>\<open>ReadPreference.resolve(this, newOptions)\<close> of
  \<^verbatim>\<open>./read_preference\<close>. The effective read preference is resolved from the call
  option, then the collection, then the database.
\<close>

definition ReadPreference_resolve :: "store \<Rightarrow> collection \<Rightarrow> props \<Rightarrow> jsval" where
  "ReadPreference_resolve st this options =
     (if nullish (lookup options ''readPreference'') then readPreference st this
      else lookup options ''readPreference'')"

text \<open>
  Modelled from the spec: \<^verbatim>\<open>MongoError.create({ message, driver: true })\<close> of
  \<^verbatim>\<open>./error\<close>, an invalid-argument error of the driver with that message.
\<close>

definition MongoError_create :: "string \<Rightarrow> error" where
  "MongoError_create message = Err ''MongoError'' message"

text \<open>
  Modelled from the spec: \<^verbatim>\<open>decorateCommand(command, options, exclude)\<close> of
  \<^verbatim>\<open>./utils\<close>. The command carries the options of the call: the specification lists
  \<^verbatim>\<open>sort\<close> among its keys and has \<^verbatim>\<open>noCursorTimeout\<close> compiled into it, and
  \<^verbatim>\<open>find\<close> writes neither to the command (it sets \<^verbatim>\<open>noCursorTimeout\<close> on the
  options, and formats the \<^verbatim>\<open>sort\<close> that it finds on the command). Every property of
  the options is written to the command but for the names in the third argument: the
  session is forwarded in the options, and the collation is attached by
  \<^verbatim>\<open>decorateWithCollation\<close>. The source mutates the command; the model returns it.
\<close>

definition decorateCommand :: "props \<Rightarrow> props \<Rightarrow> string list \<Rightarrow> props" where
  "decorateCommand command options exclude =
     fold (\<lambda>(name, value) c. if name \<in> set exclude then c else put_property c name value)
       (AList.clearjunk options) command"

text \<open>
  Modelled from the spec: \<^verbatim>\<open>decorateWithReadConcern\<close> of \<^verbatim>\<open>./utils\<close>. The
  read-concern document is attached to the command verbatim if present; it is not
  validated.
\<close>

definition decorateWithReadConcern :: "store \<Rightarrow> props \<Rightarrow> collection \<Rightarrow> jsval \<Rightarrow> props" where
  "decorateWithReadConcern st command coll options =
     (if nullish (readConcern st coll) then command
      else AList.update ''readConcern'' (readConcern st coll) command)"

text \<open>
  Modelled from the spec: \<^verbatim>\<open>decorateWithCollation\<close> of \<^verbatim>\<open>./utils\<close>. The collation
  document is attached to the command verbatim if present; it is not validated.
\<close>

definition decorateWithCollation :: "store \<Rightarrow> props \<Rightarrow> collection \<Rightarrow> jsval \<Rightarrow> props" where
  "decorateWithCollation st command coll options =
     (if nullish (js_get st options ''collation'') then command
      else AList.update ''collation'' (js_get st options ''collation'') command)"

section \<open>Operation descriptors\<close>

text \<open>
  What a method hands to the executor: the operation it constructs, with the arguments of
  the constructor in the source's order. The first is always \<^verbatim>\<open>this\<close>.
\<close>

datatype operation =
    FindOperation collection "string \<times> string" props props
  | InsertManyOperation collection jsval jsval
  | BulkWriteOperation collection jsval jsval
  | RenameOperation collection jsval jsval
  | DropIndexOperation collection jsval jsval
  | FindAndModifyOperation collection jsval jsval jsval jsval
  | GroupOperation collection jsval jsval jsval jsval jsval jsval
  | EvalGroupOperation collection jsval jsval jsval jsval jsval jsval

text \<open>The command of a \<^verbatim>\<open>FindOperation\<close>.\<close>

fun command_of :: "operation \<Rightarrow> props" where
  "command_of (FindOperation _ _ command _) = command"
| "command_of _ = []"

section \<open>\<^verbatim>\<open>Collection.prototype.find\<close>\<close>

text \<open>The argument at a position; a position past the last argument is \<^verbatim>\<open>undefined\<close>.\<close>

definition arg :: "jsval list \<Rightarrow> nat \<Rightarrow> jsval" where
  "arg args i = (if i < length args then args ! i else JUndefined)"

text \<open>
  \<^verbatim>\<open>object[i]\<close> of a buffer as an operand of \<^verbatim>\<open>|\<close> and \<^verbatim>\<open><<\<close>, which work on
  32-bit integers: a byte past the end is \<^verbatim>\<open>undefined\<close>, which converts to 0.
\<close>

definition byte_at :: "8 word list \<Rightarrow> nat \<Rightarrow> 32 word" where
  "byte_at bs i = (if i < length bs then ucast (bs ! i) else 0)"

text \<open>
  \<^verbatim>\<open>object[0] | (object[1] << 8) | (object[2] << 16) | (object[3] << 24)\<close>, a signed
  32-bit integer.
\<close>

definition object_size :: "8 word list \<Rightarrow> int" where
  "object_size bs =
     sint (byte_at bs 0 OR push_bit 8 (byte_at bs 1) OR push_bit 16 (byte_at bs 2)
           OR push_bit 24 (byte_at bs 3))"

definition size_mismatch_message :: "8 word list \<Rightarrow> string" where
  "size_mismatch_message bs =
     ''query selector raw message size does not match message header size [''
     @ show_nat (length bs) @ ''] != ['' @ show_int (object_size bs) @ '']''"

text \<open>
  The selector: the query when it is an object that is not an array, else the empty
  document; a buffer is checked against its length prefix; an ObjectID becomes a query
  by \<^verbatim>\<open>_id\<close>.
\<close>

definition find_selector :: "store \<Rightarrow> jsval \<Rightarrow> error + jsval" where
  "find_selector st query =
     (let selector = (if query \<noteq> JNull \<and> typeof query = ''object'' \<and> isArray query = False
                      then query else JObj [])
      in case (case selector of
                 JBuf object \<Rightarrow>
                   if object_size object \<noteq> int (length object)
                   then Some (Err ''MongoError'' (size_mismatch_message object))
                   else None
               | _ \<Rightarrow> None) of
           Some error \<Rightarrow> Inl error
         | None \<Rightarrow>
             Inr (if \<not> nullish selector \<and> strict_eq (js_get st selector ''_bsontype'') (JStr ''ObjectID'')
                  then JObj [(''_id'', selector)] else selector))"

text \<open>
  The projection: \<^verbatim>\<open>options.projection || options.fields\<close>; an array of field names
  becomes the document that maps each name to 1, the empty array \<^verbatim>\<open>{ _id: 1 }\<close>.
\<close>

definition find_projection :: "store \<Rightarrow> jsval \<Rightarrow> jsval" where
  "find_projection st options =
     (let projection = js_or (js_get st options ''projection'') (js_get st options ''fields'')
      in if truthy projection \<and> \<not> isBuffer projection \<and> isArray projection
         then (case projection of
                 JArr names \<Rightarrow>
                   if length names \<noteq> 0
                   then JObj (fold (\<lambda>field result. put_property result (to_key field) (JNum 1)) names [])
                   else JObj [(''_id'', JNum 1)]
               | _ \<Rightarrow> projection)
         else projection)"

text \<open>
  \<^verbatim>\<open>newOptions.readPreference != null && (newOptions.readPreference !== 'primary' ||
  newOptions.readPreference.mode !== 'primary')\<close>
\<close>

definition slaveOk_forced :: "store \<Rightarrow> jsval \<Rightarrow> bool" where
  "slaveOk_forced st rp =
     (\<not> nullish rp \<and>
      (strict_ne rp (JStr ''primary'') \<or> strict_ne (js_get st rp ''mode'') (JStr ''primary'')))"

text \<open>
  The shallow copy of the options, with the keys of \<^verbatim>\<open>mergeKeys\<close> that the
  collection's options have.
\<close>

definition find_copy_options :: "store \<Rightarrow> collection \<Rightarrow> jsval \<Rightarrow> props" where
  "find_copy_options st this options =
     (let newOptions = Object_assign [] (own_props st options)
      in fold (\<lambda>key n. if key \<in> set mergeKeys
                          then AList.update key (js_get st (s_options this) key) n else n)
           (map fst (own_props st (s_options this))) newOptions)"

text \<open>The unpacked options.\<close>

definition find_unpack_options :: "helpers \<Rightarrow> store \<Rightarrow> collection \<Rightarrow> jsval \<Rightarrow> props \<Rightarrow> props" where
  "find_unpack_options H st this options newOptions0 =
     (let newOptions = newOptions0;
          newOptions = AList.update ''skip''
            (if truthy (js_get st options ''skip'') then js_get st options ''skip'' else JNum 0) newOptions;
          newOptions = AList.update ''limit''
            (if truthy (js_get st options ''limit'') then js_get st options ''limit'' else JNum 0) newOptions;
          newOptions = AList.update ''raw''
            (if typeof (js_get st options ''raw'') = ''boolean'' then js_get st options ''raw''
             else s_raw this) newOptions;
          newOptions = AList.update ''hint''
            (if \<not> nullish (js_get st options ''hint'') then normalizeHintField H (js_get st options ''hint'')
             else s_collectionHint this) newOptions;
          newOptions = AList.update ''timeout''
            (if typeof (js_get st options ''timeout'') = ''undefined'' then JUndefined
             else js_get st options ''timeout'') newOptions;
          newOptions = AList.update ''slaveOk''
            (if \<not> nullish (js_get st options ''slaveOk'') then js_get st options ''slaveOk''
             else js_get st (s_db this) ''slaveOk'') newOptions
      in newOptions)"

text \<open>The resolved read preference and the flag derived from it.\<close>

definition find_read_target :: "store \<Rightarrow> collection \<Rightarrow> props \<Rightarrow> props" where
  "find_read_target st this newOptions0 =
     (let newOptions = newOptions0;
          newOptions = AList.update ''readPreference'' (ReadPreference_resolve st this newOptions) newOptions
      in if slaveOk_forced st (lookup newOptions ''readPreference'')
         then AList.update ''slaveOk'' (JBool True) newOptions
         else newOptions)"

definition find_newOptions :: "helpers \<Rightarrow> store \<Rightarrow> collection \<Rightarrow> jsval \<Rightarrow> props" where
  "find_newOptions H st this options =
     find_read_target st this (find_unpack_options H st this options (find_copy_options st this options))"

text \<open>
  \<^verbatim>\<open>awaitdata\<close> becomes \<^verbatim>\<open>awaitData\<close> and a boolean \<^verbatim>\<open>timeout\<close> becomes
  \<^verbatim>\<open>noCursorTimeout\<close>.
\<close>

definition find_translate_flags :: "props \<Rightarrow> props" where
  "find_translate_flags newOptions0 =
     (let newOptions = newOptions0;
          newOptions = (if typeof (lookup newOptions ''awaitdata'') = ''boolean''
                        then AList.update ''awaitData'' (lookup newOptions ''awaitdata'') newOptions
                        else newOptions);
          newOptions = (if typeof (lookup newOptions ''timeout'') = ''boolean''
                        then AList.update ''noCursorTimeout'' (lookup newOptions ''timeout'') newOptions
                        else newOptions)
      in newOptions)"

text \<open>The database object, and the collection's serialization flags where the call set none.\<close>

definition find_collection_level :: "collection \<Rightarrow> props \<Rightarrow> props" where
  "find_collection_level this newOptions0 =
     (let newOptions = newOptions0;
          newOptions = AList.update ''db'' (s_db this) newOptions;
          newOptions = (if nullish (lookup newOptions ''raw'') \<and> typeof (s_raw this) = ''boolean''
                        then AList.update ''raw'' (s_raw this) newOptions else newOptions);
          newOptions = (if nullish (lookup newOptions ''promoteLongs'') \<and> typeof (s_promoteLongs this) = ''boolean''
                        then AList.update ''promoteLongs'' (s_promoteLongs this) newOptions else newOptions);
          newOptions = (if nullish (lookup newOptions ''promoteValues'') \<and> typeof (s_promoteValues this) = ''boolean''
                        then AList.update ''promoteValues'' (s_promoteValues this) newOptions else newOptions);
          newOptions = (if nullish (lookup newOptions ''promoteBuffers'') \<and> typeof (s_promoteBuffers this) = ''boolean''
                        then AList.update ''promoteBuffers'' (s_promoteBuffers this) newOptions else newOptions)
      in newOptions)"

text \<open>
  The command and the options from the command literal on. The cursor that the method
  returns wraps the \<^verbatim>\<open>FindOperation\<close>, which is the result here.
\<close>

definition find_build ::
  "helpers \<Rightarrow> store \<Rightarrow> collection \<Rightarrow> jsval \<Rightarrow> jsval \<Rightarrow> jsval \<Rightarrow> props \<Rightarrow> operation" where
  "find_build H st this options selector projection newOptions0 =
     (let newOptions = newOptions0;
          findCommand = [(''find'', JStr (namespace_toString (s_namespace this))),
                         (''limit'', lookup newOptions ''limit''),
                         (''skip'', lookup newOptions ''skip''),
                         (''query'', selector)];
          findCommand = (if typeof (js_get st options ''allowDiskUse'') = ''boolean''
                         then AList.update ''allowDiskUse'' (js_get st options ''allowDiskUse'') findCommand
                         else findCommand);
          newOptions = find_translate_flags newOptions;
          findCommand = decorateCommand findCommand newOptions [''session'', ''collation''];
          findCommand = (if truthy projection then AList.update ''fields'' projection findCommand
                         else findCommand);
          newOptions = find_collection_level this newOptions;
          findCommand = (if truthy (lookup findCommand ''sort'')
                         then AList.update ''sort'' (formattedOrderClause H (lookup findCommand ''sort'')) findCommand
                         else findCommand);
          findCommand = decorateWithReadConcern st findCommand this options;
          findCommand = decorateWithCollation st findCommand this options
      in FindOperation this (s_namespace this) findCommand newOptions)"

text \<open>
  The method. \<^verbatim>\<open>deprecateOptions\<close>, which wraps it, only warns about deprecated
  options. \<open>arguments\<close> is the list of the arguments of the call.
\<close>

definition Collection_find :: "helpers \<Rightarrow> store \<Rightarrow> collection \<Rightarrow> jsval list \<Rightarrow> error + operation" where
  "Collection_find H st this arguments =
     (let query = arg arguments 0; options = arg arguments 1
      in if length arguments > 2
         then Inl (Err ''TypeError'' ''Third parameter to `collection.find()` must be undefined'')
         else if typeof query = ''function''
         then Inl (Err ''TypeError'' ''`query` parameter must not be function'')
         else if typeof options = ''function''
         then Inl (Err ''TypeError'' ''`options` parameter must not be function'')
         else case find_selector st query of
           Inl e \<Rightarrow> Inl e
         | Inr selector \<Rightarrow>
             let options = (if \<not> truthy options then JObj [] else options);
                 projection = find_projection st options;
                 newOptions = find_newOptions H st this options
             in if \<not> nullish selector \<and> typeof selector \<noteq> ''object''
                then Inl (MongoError_create ''query selector must be an object'')
                else Inr (find_build H st this options selector projection newOptions))"

section \<open>Methods that take an options object\<close>

text \<open>
  These methods are modelled over the store, since some of them write to the options
  object they are given. Each returns what it passes to \<^verbatim>\<open>executeOperation\<close>: the
  operation and the callback, beside the store as the call leaves it.
\<close>

definition quoted :: "string \<Rightarrow> string" where
  "quoted s = CHR 0x27 # s @ [CHR 0x27]"

text \<open>
  \<^verbatim>\<open>target.k = x\<close>. The file is a module, hence strict code: a write to a property of
  a primitive throws a \<^verbatim>\<open>TypeError\<close>, as does one to \<^verbatim>\<open>null\<close> or
  \<^verbatim>\<open>undefined\<close>. A write to an object in the store changes the store. An address
  outside the store names no object, and nothing is written.
\<close>

fun js_set :: "store \<Rightarrow> jsval \<Rightarrow> string \<Rightarrow> jsval \<Rightarrow> error + store \<times> jsval" where
  "js_set st (JRef a) k x =
     Inr (if a < length st then st[a := AList.update k x (st ! a)] else st, JRef a)"
| "js_set st (JObj ps) k x = Inr (st, JObj (AList.update k x ps))"
| "js_set st (JArr xs) k x = Inr (st, JArr xs)"
| "js_set st (JBuf bs) k x = Inr (st, JBuf bs)"
| "js_set st (JFunc f) k x = Inr (st, JFunc f)"
| "js_set st JUndefined k x =
     Inl (Err ''TypeError'' (''Cannot set property '' @ quoted k @ '' of undefined''))"
| "js_set st JNull k x =
     Inl (Err ''TypeError'' (''Cannot set property '' @ quoted k @ '' of null''))"
| "js_set st v k x =
     Inl (Err ''TypeError'' (''Cannot create property '' @ quoted k @ '' on '' @ typeof v
                             @ '' '' @ quoted (to_key v)))"

text \<open>
  \<^verbatim>\<open>callback = typeof args[args.length - 1] === 'function' ? args.pop() : undefined\<close>:
  the arguments that are left, and the callback.
\<close>

definition pop_callback :: "jsval list \<Rightarrow> jsval list \<times> jsval" where
  "pop_callback args =
     (if args \<noteq> [] \<and> typeof (last args) = ''function'' then (butlast args, last args)
      else (args, JUndefined))"

text \<open>\<^verbatim>\<open>args.length ? args.shift() : d\<close>: the value, and the arguments that are left.\<close>

fun shift_or :: "jsval \<Rightarrow> jsval list \<Rightarrow> jsval \<times> jsval list" where
  "shift_or d [] = (d, [])"
| "shift_or d (x # xs) = (x, xs)"

text \<open>\<^verbatim>\<open>args.length ? args.shift() || d : d\<close>\<close>

fun shift_or_default :: "jsval \<Rightarrow> jsval list \<Rightarrow> jsval \<times> jsval list" where
  "shift_or_default d [] = (d, [])"
| "shift_or_default d (x # xs) = (js_or x d, xs)"

text \<open>
  \<^verbatim>\<open>if (typeof options === 'function') (callback = options), (options = {})\<close>: the
  options and the callback after it.
\<close>

definition callback_as_options :: "jsval \<Rightarrow> jsval \<Rightarrow> jsval \<times> jsval" where
  "callback_as_options options callback =
     (if typeof options = ''function'' then (JObj [], options) else (options, callback))"

definition Collection_insertMany ::
  "store \<Rightarrow> collection \<Rightarrow> jsval \<Rightarrow> jsval \<Rightarrow> jsval \<Rightarrow> store \<times> operation \<times> jsval" where
  "Collection_insertMany st this docs options callback =
     (let (options, callback) = callback_as_options options callback;
          options = (if truthy options then JObj (Object_assign [] (own_props st options))
                     else JObj [(''ordered'', JBool True)])
      in (st, InsertManyOperation this docs options, callback))"

definition Collection_bulkWrite ::
  "store \<Rightarrow> collection \<Rightarrow> jsval \<Rightarrow> jsval \<Rightarrow> jsval \<Rightarrow> error + store \<times> operation \<times> jsval" where
  "Collection_bulkWrite st this operations options callback =
     (let (options, callback) = callback_as_options options callback;
          options = js_or options (JObj [(''ordered'', JBool True)])
      in if \<not> isArray operations
         then Inl (MongoError_create ''operations must be an array of documents'')
         else Inr (st, BulkWriteOperation this operations options, callback))"

definition Collection_rename ::
  "store \<Rightarrow> collection \<Rightarrow> jsval \<Rightarrow> jsval \<Rightarrow> jsval \<Rightarrow> store \<times> operation \<times> jsval" where
  "Collection_rename st this newName options callback =
     (let (options, callback) = callback_as_options options callback;
          options = JObj (Object_assign (Object_assign [] (own_props st options))
                            [(''readPreference'', ReadPreference_PRIMARY)])
      in (st, RenameOperation this newName options, callback))"

definition Collection_dropIndex ::
  "store \<Rightarrow> collection \<Rightarrow> jsval list \<Rightarrow> error + store \<times> operation \<times> jsval" where
  "Collection_dropIndex st this arguments =
     (let indexName = arg arguments 0;
          (args, callback) = pop_callback (drop 1 arguments);
          (options, args) = shift_or_default (JObj []) args
      in case js_set st options ''readPreference'' ReadPreference_PRIMARY of
           Inl e \<Rightarrow> Inl e
         | Inr (st, options) \<Rightarrow> Inr (st, DropIndexOperation this indexName options, callback))"

definition Collection_insert ::
  "store \<Rightarrow> collection \<Rightarrow> jsval \<Rightarrow> jsval \<Rightarrow> jsval \<Rightarrow> error + store \<times> operation \<times> jsval" where
  "Collection_insert st this docs options callback =
     (let (options, callback) = callback_as_options options callback;
          options = js_or options (JObj [(''ordered'', JBool False)]);
          docs = (if \<not> isArray docs then JArr [docs] else docs)
      in case (if strict_eq (js_get st options ''keepGoing'') (JBool True)
               then js_set st options ''ordered'' (JBool False)
               else Inr (st, options)) of
           Inl e \<Rightarrow> Inl e
         | Inr (st, options) \<Rightarrow> Inr (Collection_insertMany st this docs options callback))"

text \<open>
  \<^verbatim>\<open>_findAndModify\<close>, which is both \<^verbatim>\<open>Collection.prototype._findAndModify\<close>
  and, behind a deprecation warning, \<^verbatim>\<open>Collection.prototype.findAndModify\<close>.
\<close>

definition Collection_findAndModify ::
  "store \<Rightarrow> collection \<Rightarrow> jsval list \<Rightarrow> store \<times> operation \<times> jsval" where
  "Collection_findAndModify st this arguments =
     (let query = arg arguments 0;
          (args, callback) = pop_callback (drop 1 arguments);
          (sort, args) = shift_or_default (JArr []) args;
          (doc, args) = shift_or JNull args;
          (options, args) = shift_or_default (JObj []) args;
          options = Object_assign [] (own_props st options);
          options = AList.update ''readPreference'' ReadPreference_PRIMARY options
      in (st, FindAndModifyOperation this query sort doc (JObj options), callback))"

definition Collection_findAndRemove ::
  "store \<Rightarrow> collection \<Rightarrow> jsval list \<Rightarrow> error + store \<times> operation \<times> jsval" where
  "Collection_findAndRemove st this arguments =
     (let query = arg arguments 0;
          (args, callback) = pop_callback (drop 1 arguments);
          (sort, args) = shift_or_default (JArr []) args;
          (options, args) = shift_or_default (JObj []) args
      in case js_set st options ''remove'' (JBool True) of
           Inl e \<Rightarrow> Inl e
         | Inr (st, options) \<Rightarrow>
             Inr (st, FindAndModifyOperation this query sort JNull options, callback))"

text \<open>\<^verbatim>\<open>v instanceof Object\<close>: true of objects and functions, false of primitives.\<close>

fun instanceof_Object :: "jsval \<Rightarrow> bool" where
  "instanceof_Object (JObj _) = True"
| "instanceof_Object (JRef _) = True"
| "instanceof_Object (JArr _) = True"
| "instanceof_Object (JBuf _) = True"
| "instanceof_Object (JFunc _) = True"
| "instanceof_Object _ = False"

text \<open>\<^verbatim>\<open>if (typeof f === 'function') f = f.toString()\<close>\<close>

fun function_toString :: "jsval \<Rightarrow> jsval" where
  "function_toString (JFunc src) = JStr src"
| "function_toString v = v"

definition Collection_group ::
  "store \<Rightarrow> collection \<Rightarrow> jsval list \<Rightarrow> store \<times> operation \<times> jsval" where
  "Collection_group st this arguments =
     (let keys = arg arguments 0; condition = arg arguments 1; initial = arg arguments 2;
          (args, callback) = pop_callback (drop 3 arguments);
          (reduce, args) = shift_or JNull args;
          (finalize, args) = shift_or JNull args;
          (command, args) = shift_or JNull args;
          (options, args) = shift_or_default (JObj []) args;
          (command, finalize) = (if \<not> (typeof finalize = ''function'') then (finalize, JNull)
                                 else (command, finalize));
          keys = (if \<not> isArray keys \<and> instanceof_Object keys \<and> typeof keys \<noteq> ''function''
                     \<and> \<not> strict_eq (js_get st keys ''_bsontype'') (JStr ''Code'')
                  then JArr (map (\<lambda>(k, v). JStr k) (own_props st keys)) else keys);
          reduce = function_toString reduce;
          finalize = function_toString finalize;
          command = (if nullish command then JBool True else command)
      in if nullish command
         then (st, EvalGroupOperation this keys condition initial reduce finalize options, callback)
         else (st, GroupOperation this keys condition initial reduce finalize options, callback))"

section \<open>Vocabulary of the statements\<close>

text \<open>
  The collection of the specification's end-to-end scenario, \<^verbatim>\<open>db.coll\<close>, with
  nothing configured on it or on its database.
\<close>

definition db_coll :: collection where
  "db_coll =
     \<lparr>s_db = JObj [(''slaveOk'', JBool False)], s_options = JObj [],
      s_namespace = (''db'', ''coll''), s_readPreference = JUndefined, s_slaveOk = JBool False,
      s_serializeFunctions = JUndefined, s_raw = JUndefined, s_promoteLongs = JUndefined,
      s_promoteValues = JUndefined, s_promoteBuffers = JUndefined, s_internalHint = JNull,
      s_collectionHint = JNull, s_readConcern = JUndefined, s_writeConcern = JUndefined\<rparr>"

text \<open>
  An options object as a caller supplies it: an object by value, or an object of the
  store.
\<close>

fun plain_object :: "store \<Rightarrow> jsval \<Rightarrow> bool" where
  "plain_object st (JObj ps) = True"
| "plain_object st (JRef a) = (a < length st)"
| "plain_object st _ = False"

text \<open>
  The value in the options position of a call of \<^verbatim>\<open>dropIndex\<close>: the first argument
  after the index name, once a trailing callback is taken off.
\<close>

definition dropIndex_options :: "jsval list \<Rightarrow> jsval" where
  "dropIndex_options arguments = fst (shift_or JUndefined (fst (pop_callback (drop 1 arguments))))"

text \<open>The options \<^verbatim>\<open>find\<close> works with: the second argument, or \<^verbatim>\<open>{}\<close> when it is falsy.\<close>

definition find_options :: "jsval list \<Rightarrow> jsval" where
  "find_options arguments = (if \<not> truthy (arg arguments 1) then JObj [] else arg arguments 1)"

text \<open>The keys of a document.\<close>

definition keys_of :: "props \<Rightarrow> string set" where
  "keys_of ps = fst ` set ps"

text \<open>The value owns a property of that name.\<close>

definition owns :: "store \<Rightarrow> jsval \<Rightarrow> string \<Rightarrow> bool" where
  "owns st v k = (k \<in> keys_of (own_props st v))"

text \<open>
  What the command holds under a key of its literal. The options of the call are copied
  onto the command after the literal is written, so that a property of the options with
  the name of the key replaces the value \<open>d\<close> that the literal gave it.
\<close>

definition option_or :: "store \<Rightarrow> jsval \<Rightarrow> string \<Rightarrow> jsval \<Rightarrow> jsval" where
  "option_or st options k d = (if owns st options k then lookup (own_props st options) k else d)"

text \<open>
  Options that own no property \<^verbatim>\<open>__proto__\<close>. \<^verbatim>\<open>Object.assign\<close> writes such a
  property through the inherited setter, which makes an object the prototype of the copy;
  what the copy inherits from it is then handed on with the options. The model has no
  prototypes: what the command takes from the options is stated for options without the
  property.
\<close>

definition proto_free :: "store \<Rightarrow> jsval \<Rightarrow> bool" where
  "proto_free st options = (\<not> owns st options ''__proto__'')"

text \<open>
  The helpers that leave a hint and a sort as they are given, for calls that pass
  neither.
\<close>

definition plain_helpers :: helpers where
  "plain_helpers = \<lparr>normalizeHintField = (\<lambda>hint. hint), formattedOrderClause = (\<lambda>sort. sort)\<rparr>"

text \<open>
  The length prefix as the specification words it: the first four bytes, little-endian,
  as a 32-bit integer. The prefix of a BSON document is a signed integer, so that a
  value from \<open>2 ^ 31\<close> on is negative. A byte that the buffer does not have counts as 0.
\<close>

definition byte_value :: "8 word list \<Rightarrow> nat \<Rightarrow> int" where
  "byte_value bs i = (if i < length bs then uint (bs ! i) else 0)"

definition le_uint32 :: "8 word list \<Rightarrow> int" where
  "le_uint32 bs = byte_value bs 0 + 256 * byte_value bs 1 + 65536 * byte_value bs 2
                  + 16777216 * byte_value bs 3"

definition le_int32 :: "8 word list \<Rightarrow> int" where
  "le_int32 bs = (if le_uint32 bs < 2147483648 then le_uint32 bs else le_uint32 bs - 4294967296)"

section \<open>What is proved\<close>

subsection \<open>Reading and copying properties\<close>

lemma lookup_update_same: "lookup (AList.update k v ps) k = v"
  by (simp add: lookup_def update_conv')

lemma lookup_update_other: "k' \<noteq> k \<Longrightarrow> lookup (AList.update k v ps) k' = lookup ps k'"
  by (simp add: lookup_def update_conv')

lemma lookup_clearjunk: "lookup (AList.clearjunk ps) k = lookup ps k"
  by (simp add: lookup_def map_of_clearjunk)

lemma map_of_fold_update:
  "distinct (map fst s) \<Longrightarrow>
   map_of (fold (\<lambda>(k, v) t. AList.update k v t) s t) = map_of t ++ map_of s"
proof (induction s arbitrary: t)
  case Nil
  then show ?case by simp
next
  case (Cons p s)
  obtain k v where p: "p = (k, v)" by (cases p)
  from Cons.prems p have notin: "map_of s k = None" and d: "distinct (map fst s)"
    by (auto simp: map_of_eq_None_iff)
  have IH: "map_of (fold (\<lambda>(k, v) t. AList.update k v t) s (AList.update k v t))
        = map_of (AList.update k v t) ++ map_of s"
    by (rule Cons.IH [OF d])
  have step: "(map_of (AList.update k v t) ++ map_of s) x = (map_of t ++ map_of ((k, v) # s)) x" for x
    using notin by (simp add: update_conv' map_add_def split: option.splits)
  have "map_of (fold (\<lambda>(k, v) t. AList.update k v t) (p # s) t)
        = map_of (fold (\<lambda>(k, v) t. AList.update k v t) s (AList.update k v t))"
    by (simp add: p)
  also have "\<dots> = map_of t ++ map_of ((k, v) # s)"
    unfolding IH by (rule ext) (rule step)
  finally show ?case unfolding p .
qed

lemma lookup_Object_assign:
  "distinct (map fst s) \<Longrightarrow>
   lookup (Object_assign t s) k = (case map_of s k of None \<Rightarrow> lookup t k | Some v \<Rightarrow> v)"
  by (simp add: lookup_def Object_assign_def map_of_fold_update map_add_def split: option.splits)

lemma lookup_Object_assign_own:
  "lookup (Object_assign [] (AList.clearjunk ps)) k = lookup ps k"
proof -
  have "lookup (Object_assign [] (AList.clearjunk ps)) k
        = (case map_of (AList.clearjunk ps) k of None \<Rightarrow> lookup [] k | Some v \<Rightarrow> v)"
    by (rule lookup_Object_assign) (rule distinct_clearjunk)
  also have "\<dots> = lookup ps k"
    by (simp add: lookup_def map_of_clearjunk split: option.splits)
  finally show ?thesis .
qed

lemma lookup_if: "lookup (if c then a else b) k = (if c then lookup a k else lookup b k)"
  by simp

lemma lookup_Cons: "lookup ((k', v) # ps) k = (if k = k' then v else lookup ps k)"
  by (simp add: lookup_def)

lemma lookup_Nil: "lookup [] k = JUndefined"
  by (simp add: lookup_def)

lemma lookup_update: "lookup (AList.update k v ps) k' = (if k' = k then v else lookup ps k')"
  by (simp add: lookup_def update_conv')

lemma keys_update: "keys_of (AList.update k v ps) = insert k (keys_of ps)"
  by (simp add: keys_of_def dom_update)

lemma keys_if: "keys_of (if c then a else b) = (if c then keys_of a else keys_of b)"
  by simp

lemma keys_Cons: "keys_of (p # ps) = insert (fst p) (keys_of ps)"
  by (simp add: keys_of_def)

lemma keys_Nil: "keys_of [] = {}"
  by (simp add: keys_of_def)

lemma digit_char_inj: "d < 10 \<Longrightarrow> e < 10 \<Longrightarrow> digit_char d = digit_char e \<Longrightarrow> d = e"
proof -
  assume "d < 10" "e < 10" "digit_char d = digit_char e"
  moreover have "distinct ''0123456789''" by simp
  ultimately show ?thesis by (simp add: digit_char_def nth_eq_iff_index_eq)
qed

lemma show_nat_small: "n < 10 \<Longrightarrow> show_nat n = [digit_char n]"
  by (subst show_nat.simps) simp

lemma show_nat_large: "\<not> n < 10 \<Longrightarrow> show_nat n = show_nat (n div 10) @ [digit_char (n mod 10)]"
  by (subst show_nat.simps) simp

lemma show_nat_ne: "show_nat n \<noteq> []"
  by (cases "n < 10") (simp_all add: show_nat_small show_nat_large)

lemma show_nat_inj: "show_nat m = show_nat n \<Longrightarrow> m = n"
proof (induction m arbitrary: n rule: show_nat.induct)
  case (1 m)
  show ?case
  proof (cases "m < 10")
    case True
    have n: "n < 10"
    proof (rule ccontr)
      assume "\<not> n < 10"
      with True "1.prems" show_nat_ne [of "n div 10"] show False
        by (simp add: show_nat_small show_nat_large)
    qed
    with True "1.prems" show ?thesis
      by (simp add: show_nat_small digit_char_inj)
  next
    case False
    have n: "\<not> n < 10"
    proof
      assume "n < 10"
      with False "1.prems" show_nat_ne [of "m div 10"] show False
        by (simp add: show_nat_small show_nat_large)
    qed
    from False n "1.prems" have a: "show_nat (m div 10) = show_nat (n div 10)"
      and b: "digit_char (m mod 10) = digit_char (n mod 10)"
      by (simp_all add: show_nat_large)
    from "1.IH" [OF False a] have "m div 10 = n div 10" .
    moreover from b have "m mod 10 = n mod 10"
      by (intro digit_char_inj) simp_all
    ultimately show ?thesis
      by (metis div_mult_mod_eq)
  qed
qed

lemma distinct_indices: "distinct (indices n)"
  by (simp add: indices_def distinct_map inj_on_def show_nat_inj)

lemma length_indices: "length (indices n) = n"
  by (simp add: indices_def)

lemma distinct_own_props: "distinct (map fst (own_props st v))"
  by (cases v) (simp_all add: distinct_clearjunk distinct_indices length_indices)

lemma keys_Object_assign: "keys_of (Object_assign t s) = keys_of t \<union> keys_of s"
proof (induction s arbitrary: t)
  case Nil
  then show ?case by (simp add: Object_assign_def keys_of_def)
next
  case (Cons p s)
  obtain k v where p: "p = (k, v)" by (cases p)
  have "keys_of (Object_assign t (p # s)) = keys_of (Object_assign (AList.update k v t) s)"
    by (simp add: Object_assign_def p)
  also have "\<dots> = keys_of (AList.update k v t) \<union> keys_of s"
    by (rule Cons.IH)
  finally show ?case
    by (simp add: keys_update p keys_Cons)
qed

lemma lookup_copy_own: "lookup (Object_assign [] (own_props st v)) k = lookup (own_props st v) k"
proof -
  have "lookup (Object_assign [] (own_props st v)) k
        = (case map_of (own_props st v) k of None \<Rightarrow> lookup [] k | Some v \<Rightarrow> v)"
    by (rule lookup_Object_assign) (rule distinct_own_props)
  also have "\<dots> = lookup (own_props st v) k"
    by (simp add: lookup_def split: option.splits)
  finally show ?thesis .
qed

lemma keys_copy_own: "keys_of (Object_assign [] (own_props st v)) = keys_of (own_props st v)"
  by (simp add: keys_Object_assign keys_Nil)

lemma map_of_fold_decorate:
  "distinct (map fst ps) \<Longrightarrow>
   map_of (fold (\<lambda>(name, value) c. if name \<in> ex then c else put_property c name value) ps c) k
     = (if k \<notin> ex \<and> k \<noteq> ''__proto__'' \<and> k \<in> fst ` set ps then map_of ps k else map_of c k)"
proof (induction ps arbitrary: c)
  case Nil
  then show ?case by simp
next
  case (Cons p ps)
  obtain a b where p: "p = (a, b)" by (cases p)
  from Cons.prems p have d: "distinct (map fst ps)" and notin: "a \<notin> fst ` set ps"
    by auto
  show ?case
    using notin by (auto simp: p Cons.IH [OF d] put_property_def update_conv' image_iff)
qed


lemma lookup_decorateCommand:
  "lookup (decorateCommand c opts ex) k
     = (if k \<notin> set ex \<and> k \<noteq> ''__proto__'' \<and> k \<in> keys_of opts then lookup opts k
        else lookup c k)"
  by (simp add: lookup_def decorateCommand_def map_of_fold_decorate distinct_clearjunk
      map_of_clearjunk dom_clearjunk keys_of_def)


subsection \<open>The length prefix of a buffer\<close>

lemma byte_value_range: "0 \<le> byte_value bs i \<and> byte_value bs i < 256"
proof -
  have "uint (bs ! i) < 2 ^ LENGTH(8)" by (rule uint_bounded)
  then show ?thesis by (simp add: byte_value_def)
qed

lemma uint_byte_at: "uint (byte_at bs i) = byte_value bs i"
proof (cases "i < length bs")
  case True
  have "uint (bs ! i) < 2 ^ LENGTH(8)" by (rule uint_bounded)
  then have "take_bit 32 (uint (bs ! i)) = uint (bs ! i)"
    by (intro take_bit_int_eq_self) simp_all
  with True show ?thesis by (simp add: byte_at_def byte_value_def unsigned_ucast_eq)
next
  case False
  then show ?thesis by (simp add: byte_at_def byte_value_def)
qed

lemma byte_or_shift:
  fixes a x :: int
  assumes "0 \<le> a" "a < 256"
  shows "a OR push_bit 8 x = a + 256 * x"
proof -
  have low: "take_bit 8 a = a" using assms by (intro take_bit_int_eq_self) simp_all
  then have "a OR push_bit 8 x = concat_bit 8 a x" by (simp add: concat_bit_def)
  also have "\<dots> = take_bit 8 a + push_bit 8 x" by (rule concat_bit_eq)
  also have "\<dots> = a + 256 * x" using low by (simp add: push_bit_eq_mult)
  finally show ?thesis .
qed

lemma four_bytes_or:
  fixes a b c d :: int
  assumes "0 \<le> a" "a < 256" "0 \<le> b" "b < 256" "0 \<le> c" "c < 256"
  shows "a OR push_bit 8 b OR push_bit 16 c OR push_bit 24 d = a + 256 * b + 65536 * c + 16777216 * d"
proof -
  have "a OR push_bit 8 b OR push_bit 16 c OR push_bit 24 d
        = a OR push_bit 8 (b OR push_bit 8 (c OR push_bit 8 d))"
    by simp
  also have "\<dots> = a + 256 * (b + 256 * (c + 256 * d))"
    using assms by (simp add: byte_or_shift del: push_bit_or push_bit_push_bit)
  finally show ?thesis by simp
qed

lemma uint_object_word:
  "uint (byte_at bs 0 OR push_bit 8 (byte_at bs 1) OR push_bit 16 (byte_at bs 2)
           OR push_bit 24 (byte_at bs 3)) = le_uint32 bs"
proof -
  let ?a = "byte_value bs 0" and ?b = "byte_value bs 1" and ?c = "byte_value bs 2"
    and ?d = "byte_value bs 3"
  have r: "0 \<le> ?a" "?a < 256" "0 \<le> ?b" "?b < 256" "0 \<le> ?c" "?c < 256" "0 \<le> ?d" "?d < 256"
    using byte_value_range by blast+
  have s1: "take_bit LENGTH(32) (push_bit 8 ?b) = push_bit 8 ?b"
    using r by (intro take_bit_int_eq_self) (simp_all add: push_bit_eq_mult)
  have s2: "take_bit LENGTH(32) (push_bit 16 ?c) = push_bit 16 ?c"
    using r by (intro take_bit_int_eq_self) (simp_all add: push_bit_eq_mult)
  have s3: "take_bit LENGTH(32) (push_bit 24 ?d) = push_bit 24 ?d"
    using r by (intro take_bit_int_eq_self) (simp_all add: push_bit_eq_mult)
  have "uint (byte_at bs 0 OR push_bit 8 (byte_at bs 1) OR push_bit 16 (byte_at bs 2)
           OR push_bit 24 (byte_at bs 3))
        = ?a OR push_bit 8 ?b OR push_bit 16 ?c OR push_bit 24 ?d"
    by (simp only: uint_or unsigned_push_bit_eq uint_byte_at s1 s2 s3)
  also have "\<dots> = le_uint32 bs"
    using r by (simp add: four_bytes_or le_uint32_def)
  finally show ?thesis .
qed

lemma le_uint32_range: "0 \<le> le_uint32 bs \<and> le_uint32 bs < 4294967296"
  using byte_value_range [of bs 0] byte_value_range [of bs 1] byte_value_range [of bs 2]
    byte_value_range [of bs 3]
  by (simp add: le_uint32_def)

lemma signed_take_bit_31:
  fixes n :: int
  assumes "0 \<le> n" "n < 4294967296"
  shows "signed_take_bit 31 n = (if n < 2147483648 then n else n - 4294967296)"
proof (cases "n < 2147483648")
  case True
  with assms have "signed_take_bit 31 n = n"
    by (intro signed_take_bit_int_eq_self) simp_all
  with True show ?thesis by simp
next
  case False
  have eq: "n + 2147483648 = (n - 2147483648) + 4294967296"
    by simp
  have "(n + 2147483648) mod 4294967296 = (n - 2147483648) mod 4294967296"
    unfolding eq by (rule mod_add_self2)
  also have "\<dots> = n - 2147483648"
    using assms False by (intro mod_pos_pos_trivial) simp_all
  finally have "(n + 2147483648) mod 4294967296 = n - 2147483648" .
  with False show ?thesis
    by (simp add: signed_take_bit_eq_take_bit_shift take_bit_eq_mod)
qed

lemma object_size_le_int32: "object_size bs = le_int32 bs"
proof -
  have "LENGTH(32) - Suc 0 = 31" by simp
  then have "object_size bs = signed_take_bit 31 (le_uint32 bs)"
    by (simp only: object_size_def sint_uint uint_object_word)
  also have "\<dots> = le_int32 bs"
    using le_uint32_range [of bs] by (simp only: signed_take_bit_31 le_int32_def)
  finally show ?thesis .
qed

subsection \<open>The stages of \<^verbatim>\<open>find\<close>\<close>

lemma buffer_has_no_bsontype:
  "strict_eq (js_get st (JBuf bs) ''_bsontype'') (JStr s) = False"
proof -
  have "map_of (zip ks (map (\<lambda>b. JNum (uint b)) bs)) k \<noteq> Some (JStr s)" for ks :: "string list" and k
  proof
    assume "map_of (zip ks (map (\<lambda>b. JNum (uint b)) bs)) k = Some (JStr s)"
    then have "(k, JStr s) \<in> set (zip ks (map (\<lambda>b. JNum (uint b)) bs))"
      by (rule map_of_SomeD)
    then have "JStr s \<in> set (map (\<lambda>b. JNum (uint b)) bs)"
      by (rule set_zip_rightD)
    then show False by auto
  qed
  then show ?thesis
    by (auto simp: strict_eq_def lookup_def split: option.splits)
qed

lemma find_selector_buffer:
  "find_selector st (JBuf bs) =
     (if object_size bs \<noteq> int (length bs) then Inl (Err ''MongoError'' (size_mismatch_message bs))
      else Inr (JBuf bs))"
  by (simp add: find_selector_def buffer_has_no_bsontype del: js_get.simps)

lemma find_selector_object:
  "find_selector st query = Inr selector \<Longrightarrow> typeof selector = ''object'' \<and> \<not> nullish selector"
proof (cases query)
  case (JBuf bs)
  assume "find_selector st query = Inr selector"
  with JBuf show ?thesis
    by (auto simp: find_selector_buffer split: if_splits)
qed (auto simp: find_selector_def Let_def split: if_splits)

lemma find_selector_Inl:
  "find_selector st query = Inl e \<Longrightarrow>
   \<exists>bs. query = JBuf bs \<and> e = Err ''MongoError'' (size_mismatch_message bs)"
proof (cases query)
  case (JBuf bs)
  assume "find_selector st query = Inl e"
  with JBuf show ?thesis
    by (auto simp: find_selector_buffer split: if_splits)
qed (auto simp: find_selector_def Let_def split: if_splits)

lemma find_selector_not_document:
  "query = JNull \<or> isArray query \<or> typeof query \<noteq> ''object'' \<Longrightarrow>
   find_selector st query = Inr (JObj [])"
  by (cases query) (auto simp: find_selector_def strict_eq_def lookup_def)

lemma size_mismatch_message_ne:
  "size_mismatch_message bs \<noteq> ''query selector must be an object''"
  by (simp add: size_mismatch_message_def)

lemma fold_field_names:
  "map_of (fold (\<lambda>field result. put_property result (to_key field) (JNum 1)) (map JStr names) acc)
     = (\<lambda>k. if k \<in> set names \<and> k \<noteq> ''__proto__'' then Some (JNum 1) else map_of acc k)"
proof (induction names arbitrary: acc)
  case Nil
  then show ?case by simp
next
  case (Cons n names)
  have "map_of (fold (\<lambda>field result. put_property result (to_key field) (JNum 1)) (map JStr (n # names)) acc)
        = map_of (fold (\<lambda>field result. put_property result (to_key field) (JNum 1)) (map JStr names)
                    (put_property acc n (JNum 1)))"
    by simp
  also have "\<dots> = (\<lambda>k. if k \<in> set names \<and> k \<noteq> ''__proto__'' then Some (JNum 1)
                         else map_of (put_property acc n (JNum 1)) k)"
    by (rule Cons.IH)
  also have "\<dots> = (\<lambda>k. if k \<in> set (n # names) \<and> k \<noteq> ''__proto__'' then Some (JNum 1)
                         else map_of acc k)"
    by (auto simp: put_property_def update_conv' fun_eq_iff)
  finally show ?case .
qed

lemma find_projection_names:
  assumes "js_or (js_get st options ''projection'') (js_get st options ''fields'') = JArr (map JStr names)"
  shows "\<exists>ps. find_projection st options = JObj ps
           \<and> (if names = [] then ps = [(''_id'', JNum 1)]
               else map_of ps = (\<lambda>k. if k \<in> set names \<and> k \<noteq> ''__proto__''
                                      then Some (JNum 1) else None))"
  using assms by (simp add: find_projection_def fold_field_names cong del: if_weak_cong)

lemma fold_mergeKeys_other:
  "k \<notin> set mergeKeys \<Longrightarrow>
   lookup (fold (\<lambda>key n. if key \<in> set mergeKeys then AList.update key (f key) n else n) ks n0) k
     = lookup n0 k
   \<and> (k \<in> keys_of (fold (\<lambda>key n. if key \<in> set mergeKeys then AList.update key (f key) n else n) ks n0))
     = (k \<in> keys_of n0)"
proof (induction ks arbitrary: n0)
  case Nil
  then show ?case by simp
next
  case (Cons key ks)
  from Cons.prems have "key \<in> set mergeKeys \<Longrightarrow> k \<noteq> key"
    by auto
  then show ?case
    by (simp add: Cons.IH [OF Cons.prems] lookup_update keys_update)
qed

lemma find_copy_options_other:
  assumes "k \<noteq> ''ignoreUndefined''"
  shows "lookup (find_copy_options st this options) k = lookup (own_props st options) k"
    and "(k \<in> keys_of (find_copy_options st this options)) = (k \<in> keys_of (own_props st options))"
proof -
  from assms have k: "k \<notin> set mergeKeys"
    by (simp add: mergeKeys_def)
  show "lookup (find_copy_options st this options) k = lookup (own_props st options) k"
    unfolding find_copy_options_def Let_def
    by (simp only: fold_mergeKeys_other [OF k] lookup_copy_own)
  show "(k \<in> keys_of (find_copy_options st this options)) = (k \<in> keys_of (own_props st options))"
    unfolding find_copy_options_def Let_def
    by (simp only: fold_mergeKeys_other [OF k] keys_copy_own)
qed

lemma find_unpack_options_other:
  assumes "k \<notin> {''skip'', ''limit'', ''raw'', ''hint'', ''timeout'', ''slaveOk''}"
  shows "lookup (find_unpack_options H st this options n) k = lookup n k"
    and "(k \<in> keys_of (find_unpack_options H st this options n)) = (k \<in> keys_of n)"
  using assms by (simp_all add: find_unpack_options_def Let_def lookup_update keys_update)

lemma find_read_target_other:
  assumes "k \<noteq> ''readPreference''" and "k \<noteq> ''slaveOk''"
  shows "lookup (find_read_target st this n) k = lookup n k"
    and "(k \<in> keys_of (find_read_target st this n)) = (k \<in> keys_of n)"
  using assms by (simp_all add: find_read_target_def Let_def lookup_update lookup_if keys_update keys_if)

lemma find_translate_flags_other:
  assumes "k \<noteq> ''awaitData''" and "k \<noteq> ''noCursorTimeout''"
  shows "lookup (find_translate_flags n) k = lookup n k"
    and "(k \<in> keys_of (find_translate_flags n)) = (k \<in> keys_of n)"
  using assms by (simp_all add: find_translate_flags_def Let_def lookup_update lookup_if keys_update keys_if)

lemma find_newOptions_own:
  assumes "k \<notin> {''skip'', ''limit'', ''raw'', ''hint'', ''timeout'', ''slaveOk'', ''readPreference'',
                 ''ignoreUndefined''}"
  shows "lookup (find_newOptions H st this options) k = lookup (own_props st options) k"
    and "(k \<in> keys_of (find_newOptions H st this options)) = (k \<in> keys_of (own_props st options))"
proof -
  from assms have a: "k \<noteq> ''readPreference''" "k \<noteq> ''slaveOk''"
    and b: "k \<notin> {''skip'', ''limit'', ''raw'', ''hint'', ''timeout'', ''slaveOk''}"
    and c: "k \<noteq> ''ignoreUndefined''"
    by simp_all
  show "lookup (find_newOptions H st this options) k = lookup (own_props st options) k"
    unfolding find_newOptions_def
    by (simp only: find_read_target_other [OF a] find_unpack_options_other [OF b]
        find_copy_options_other [OF c])
  show "(k \<in> keys_of (find_newOptions H st this options)) = (k \<in> keys_of (own_props st options))"
    unfolding find_newOptions_def
    by (simp only: find_read_target_other [OF a] find_unpack_options_other [OF b]
        find_copy_options_other [OF c])
qed



lemma find_build_query:
  "lookup (command_of (find_build H st this options selector projection n)) ''query''
     = (if ''query'' \<in> keys_of n then lookup n ''query'' else selector)"
  by (simp add: find_build_def Let_def lookup_decorateCommand decorateWithReadConcern_def
      decorateWithCollation_def find_translate_flags_other lookup_update lookup_Cons lookup_Nil
      lookup_if)




lemma find_build_fields:
  "truthy projection \<Longrightarrow>
   lookup (command_of (find_build H st this options selector projection n)) ''fields'' = projection"
  by (simp add: find_build_def Let_def decorateWithReadConcern_def
      decorateWithCollation_def lookup_update lookup_if)



lemma find_command_query:
  "lookup (command_of (find_build H st this options selector projection
                         (find_newOptions H st this options))) ''query''
     = option_or st options ''query'' selector"
  by (simp add: find_build_query find_newOptions_own option_or_def owns_def)



lemma find_returns:
  assumes "length arguments \<le> 2"
    and "typeof (arg arguments 0) \<noteq> ''function''"
    and "typeof (arg arguments 1) \<noteq> ''function''"
    and sel: "find_selector st (arg arguments 0) = Inr selector"
  shows "Collection_find H st this arguments =
           Inr (find_build H st this (find_options arguments) selector
                  (find_projection st (find_options arguments))
                  (find_newOptions H st this (find_options arguments)))"
  using assms find_selector_object [OF sel]
  by (simp add: Collection_find_def Let_def find_options_def)

subsection \<open>\<^verbatim>\<open>Collection.prototype.find\<close>\<close>


lemma string_has_no_mode:
  "strict_ne (js_get st (JStr s) ''mode'') (JStr ''primary'')"
proof -
  have "map_of (zip ks (map (\<lambda>c. JStr [c]) s)) k \<noteq> Some (JStr ''primary'')"
    for ks :: "string list" and k
  proof
    assume "map_of (zip ks (map (\<lambda>c. JStr [c]) s)) k = Some (JStr ''primary'')"
    then have "(k, JStr ''primary'') \<in> set (zip ks (map (\<lambda>c. JStr [c]) s))"
      by (rule map_of_SomeD)
    then have "JStr ''primary'' \<in> set (map (\<lambda>c. JStr [c]) s)"
      by (rule set_zip_rightD)
    then show False by auto
  qed
  then show ?thesis
    by (auto simp: strict_ne_def strict_eq_def lookup_def split: option.splits)
qed

lemma slaveOk_forced_iff: "slaveOk_forced st rp = (\<not> nullish rp)"
proof (cases rp)
  case (JStr s)
  then show ?thesis
    using string_has_no_mode [of st s] by (simp add: slaveOk_forced_def)
qed (simp_all add: slaveOk_forced_def strict_ne_def strict_eq_def)

text \<open>
  Claim C2 (violated by the code). The claim: the flag is forced to true if and only if
  the resolved read preference is not primary. The condition of the code holds of every
  read preference that is neither \<^verbatim>\<open>null\<close> nor \<^verbatim>\<open>undefined\<close>, primary included: a
  string has no \<^verbatim>\<open>mode\<close>, and an object is not the string \<^verbatim>\<open>'primary'\<close>. A call
  with \<^verbatim>\<open>readPreference: 'primary'\<close> and \<^verbatim>\<open>slaveOk: false\<close> ends with
  \<^verbatim>\<open>slaveOk: true\<close> in its options.
\<close>

theorem find_forces_slaveOk_for_primary:
  "slaveOk_forced st rp = (\<not> nullish rp)
   \<and> slaveOk_forced [] (JStr ''primary'')
   \<and> slaveOk_forced [] (JObj [(''mode'', JStr ''primary'')])
   \<and> Collection_find plain_helpers [] db_coll
        [JObj [], JObj [(''readPreference'', JStr ''primary''), (''slaveOk'', JBool False)]] =
      Inr (FindOperation db_coll (''db'', ''coll'')
             [(''find'', JStr ''db.coll''), (''limit'', JNum 0), (''skip'', JNum 0), (''query'', JObj []),
              (''readPreference'', JStr ''primary''), (''slaveOk'', JBool True), (''raw'', JUndefined),
              (''hint'', JNull), (''timeout'', JUndefined)]
             [(''readPreference'', JStr ''primary''), (''slaveOk'', JBool True), (''skip'', JNum 0),
              (''limit'', JNum 0), (''raw'', JUndefined), (''hint'', JNull), (''timeout'', JUndefined),
              (''db'', JObj [(''slaveOk'', JBool False)])])"
proof (intro conjI)
  show "slaveOk_forced st rp = (\<not> nullish rp)"
    by (rule slaveOk_forced_iff)
  show "slaveOk_forced [] (JStr ''primary'')"
    by (simp add: slaveOk_forced_iff)
  show "slaveOk_forced [] (JObj [(''mode'', JStr ''primary'')])"
    by (simp add: slaveOk_forced_iff)
  show "Collection_find plain_helpers [] db_coll
        [JObj [], JObj [(''readPreference'', JStr ''primary''), (''slaveOk'', JBool False)]] =
      Inr (FindOperation db_coll (''db'', ''coll'')
             [(''find'', JStr ''db.coll''), (''limit'', JNum 0), (''skip'', JNum 0), (''query'', JObj []),
              (''readPreference'', JStr ''primary''), (''slaveOk'', JBool True), (''raw'', JUndefined),
              (''hint'', JNull), (''timeout'', JUndefined)]
             [(''readPreference'', JStr ''primary''), (''slaveOk'', JBool True), (''skip'', JNum 0),
              (''limit'', JNum 0), (''raw'', JUndefined), (''hint'', JNull), (''timeout'', JUndefined),
              (''db'', JObj [(''slaveOk'', JBool False)])])"
    by code_simp
qed

text \<open>
  Claim C6. For a query that is a buffer: when the first four bytes, read little-endian
  as a 32-bit integer, equal the length of the buffer, the selector of \<^verbatim>\<open>find\<close> is
  the buffer itself and the command is built with it under \<^verbatim>\<open>query\<close>; when they
  differ, \<^verbatim>\<open>find\<close> throws an error named \<^verbatim>\<open>MongoError\<close> whose message gives both
  sizes, and builds nothing. What the command takes from the options is copied onto it
  after the selector: for options that own no property \<^verbatim>\<open>__proto__\<close>, the entry
  \<^verbatim>\<open>query\<close> is the buffer unless the options own a property \<^verbatim>\<open>query\<close>, whose
  value then replaces it.
\<close>

theorem find_buffer_length_prefix:
  assumes "length arguments \<le> 2"
    and "arg arguments 0 = JBuf bs"
    and "typeof (arg arguments 1) \<noteq> ''function''"
  shows "if le_int32 bs = int (length bs)
         then find_selector st (arg arguments 0) = Inr (JBuf bs)
              \<and> (\<exists>op. Collection_find H st this arguments = Inr op
                     \<and> (proto_free st (find_options arguments) \<longrightarrow>
                          lookup (command_of op) ''query''
                            = option_or st (find_options arguments) ''query'' (JBuf bs)))
         else Collection_find H st this arguments =
                Inl (Err ''MongoError''
                  (''query selector raw message size does not match message header size [''
                   @ show_nat (length bs) @ ''] != ['' @ show_int (le_int32 bs) @ '']''))"
proof (cases "le_int32 bs = int (length bs)")
  case True
  then have sel: "find_selector st (arg arguments 0) = Inr (JBuf bs)"
    using assms(2) by (simp add: find_selector_buffer object_size_le_int32)
  with assms have "Collection_find H st this arguments =
           Inr (find_build H st this (find_options arguments) (JBuf bs)
                  (find_projection st (find_options arguments))
                  (find_newOptions H st this (find_options arguments)))"
    by (intro find_returns) simp_all
  with True sel show ?thesis
    by (simp add: find_command_query)
next
  case False
  then have "find_selector st (arg arguments 0)
             = Inl (Err ''MongoError'' (size_mismatch_message bs))"
    using assms(2) by (simp add: find_selector_buffer object_size_le_int32)
  with assms False show ?thesis
    by (simp add: Collection_find_def Let_def size_mismatch_message_def object_size_le_int32)
qed

text \<open>
  Claim C9 (amended). When the projection (or, without one, the legacy \<^verbatim>\<open>fields\<close>
  option) is an array of field names, the command of every accepted call has under
  \<^verbatim>\<open>fields\<close> a document: \<^verbatim>\<open>{ _id: 1 }\<close> for the empty array, and otherwise the
  document whose keys are the listed names other than \<^verbatim>\<open>__proto__\<close>, each with the
  value 1. The name \<^verbatim>\<open>__proto__\<close> is lost: the write under it makes no property.
\<close>

theorem find_projection_array:
  assumes "length arguments \<le> 2"
    and "typeof (arg arguments 0) \<noteq> ''function''"
    and "typeof (arg arguments 1) \<noteq> ''function''"
    and "find_selector st (arg arguments 0) = Inr selector"
    and "js_or (js_get st (find_options arguments) ''projection'')
               (js_get st (find_options arguments) ''fields'') = JArr (map JStr names)"
  shows "\<exists>op ps. Collection_find H st this arguments = Inr op
           \<and> lookup (command_of op) ''fields'' = JObj ps
           \<and> (if names = [] then ps = [(''_id'', JNum 1)]
               else map_of ps = (\<lambda>k. if k \<in> set names \<and> k \<noteq> ''__proto__''
                                      then Some (JNum 1) else None))"
proof -
  obtain ps where ps: "find_projection st (find_options arguments) = JObj ps"
    and shape: "if names = [] then ps = [(''_id'', JNum 1)]
                else map_of ps = (\<lambda>k. if k \<in> set names \<and> k \<noteq> ''__proto__''
                                       then Some (JNum 1) else None)"
    using find_projection_names [OF assms(5)] by blast
  have "Collection_find H st this arguments =
           Inr (find_build H st this (find_options arguments) selector (JObj ps)
                  (find_newOptions H st this (find_options arguments)))"
    using find_returns [OF assms(1-4)] ps by simp
  moreover have "lookup (command_of (find_build H st this (find_options arguments) selector (JObj ps)
                  (find_newOptions H st this (find_options arguments)))) ''fields'' = JObj ps"
    by (rule find_build_fields) simp
  ultimately show ?thesis
    using shape by blast
qed

text \<open>
  Claim C10. \<^verbatim>\<open>find\<close> never throws \<^verbatim>\<open>query selector must be an object\<close>: the
  selector that reaches that check is always an object. A query that is \<^verbatim>\<open>null\<close>, an
  array or a primitive is not rejected: the command is built with the empty document as
  its selector. What the command takes from the options is copied onto it after the
  selector: for options that own no property \<^verbatim>\<open>__proto__\<close>, the entry \<^verbatim>\<open>query\<close> is
  the empty document unless the options own a property \<^verbatim>\<open>query\<close>, whose value then
  replaces it.
\<close>

theorem find_selector_check_unreachable:
  "Collection_find H st this arguments \<noteq> Inl (MongoError_create ''query selector must be an object'')
   \<and> (\<forall>selector. find_selector st query = Inr selector \<longrightarrow> typeof selector = ''object'')
   \<and> (length arguments \<le> 2 \<and> typeof (arg arguments 1) \<noteq> ''function''
        \<and> typeof (arg arguments 0) \<noteq> ''function''
        \<and> (arg arguments 0 = JNull \<or> isArray (arg arguments 0) \<or> typeof (arg arguments 0) \<noteq> ''object'')
      \<longrightarrow> (\<exists>op. Collection_find H st this arguments = Inr op
                \<and> (proto_free st (find_options arguments) \<longrightarrow>
                     lookup (command_of op) ''query''
                       = option_or st (find_options arguments) ''query'' (JObj []))))"
proof (intro conjI allI impI)
  show "Collection_find H st this arguments \<noteq> Inl (MongoError_create ''query selector must be an object'')"
  proof (cases "find_selector st (arg arguments 0)")
    case (Inl e)
    then obtain bs where "e = Err ''MongoError'' (size_mismatch_message bs)"
      using find_selector_Inl by blast
    with Inl show ?thesis
      by (simp add: Collection_find_def Let_def MongoError_create_def size_mismatch_message_ne)
  next
    case (Inr selector)
    with find_selector_object [OF Inr] show ?thesis
      by (simp add: Collection_find_def Let_def MongoError_create_def)
  qed
next
  fix selector
  assume "find_selector st query = Inr selector"
  then show "typeof selector = ''object''"
    using find_selector_object by blast
next
  assume a: "length arguments \<le> 2 \<and> typeof (arg arguments 1) \<noteq> ''function''
        \<and> typeof (arg arguments 0) \<noteq> ''function''
        \<and> (arg arguments 0 = JNull \<or> isArray (arg arguments 0) \<or> typeof (arg arguments 0) \<noteq> ''object'')"
  then have sel: "find_selector st (arg arguments 0) = Inr (JObj [])"
    by (intro find_selector_not_document) simp
  have "Collection_find H st this arguments =
           Inr (find_build H st this (find_options arguments) (JObj [])
                  (find_projection st (find_options arguments))
                  (find_newOptions H st this (find_options arguments)))"
    using a sel by (intro find_returns) simp_all
  then show "\<exists>op. Collection_find H st this arguments = Inr op
                \<and> (proto_free st (find_options arguments) \<longrightarrow>
                     lookup (command_of op) ''query''
                       = option_or st (find_options arguments) ''query'' (JObj []))"
    by (simp add: find_command_query)
qed

subsection \<open>The methods that take an options object\<close>

text \<open>
  Claim C3 (violated by the code). The claim: no public method writes to the options
  object its caller supplied. \<^verbatim>\<open>dropIndex\<close> and \<^verbatim>\<open>findAndRemove\<close> write to it:
  called with the empty options object at address 0 of the store, the first leaves
  \<^verbatim>\<open>{ readPreference: 'primary' }\<close> there and the second \<^verbatim>\<open>{ remove: true }\<close>, and
  each hands that same object to its operation. \<^verbatim>\<open>rename\<close> and
  \<^verbatim>\<open>_findAndModify\<close> copy the options first.
\<close>

theorem dropIndex_findAndRemove_write_to_caller_options:
  "Collection_dropIndex [[]] db_coll [JStr ''idx'', JRef 0] =
     Inr ([[(''readPreference'', JStr ''primary'')]],
          DropIndexOperation db_coll (JStr ''idx'') (JRef 0), JUndefined)
   \<and> Collection_findAndRemove [[]] db_coll [JObj [], JArr [], JRef 0] =
     Inr ([[(''remove'', JBool True)]],
          FindAndModifyOperation db_coll (JObj []) (JArr []) JNull (JRef 0), JUndefined)"
  by (simp add: Collection_dropIndex_def Collection_findAndRemove_def arg_def pop_callback_def js_or_def
      ReadPreference_PRIMARY_def)

text \<open>
  Claim C4 (amended). Legacy \<^verbatim>\<open>insert\<close> always builds an \<^verbatim>\<open>InsertManyOperation\<close>,
  on the documents as given when they are an array and on the one-element array of the
  document otherwise, with a fresh options object. Its \<^verbatim>\<open>ordered\<close> entry is false when
  the options are \<^verbatim>\<open>undefined\<close> (or falsy) or when \<^verbatim>\<open>keepGoing\<close> is true; it is absent
  when a callback stands in the place of the options; in every other case it is the
  caller's \<^verbatim>\<open>ordered\<close> entry, unchanged, absent when the caller gave none. So
  \<^verbatim>\<open>insert(doc, {})\<close> and \<^verbatim>\<open>insertMany([doc], { ordered: true })\<close> build the same
  operation on \<^verbatim>\<open>[doc]\<close> but for their options, \<^verbatim>\<open>{}\<close> and
  \<^verbatim>\<open>{ ordered: true }\<close>.
\<close>

theorem insert_ordered_option:
  "(typeof options = ''function'' \<or> \<not> truthy options \<or> plain_object st options \<longrightarrow>
     (\<exists>st' options'.
        Collection_insert st this docs options callback =
          Inr (st', InsertManyOperation this (if isArray docs then docs else JArr [docs]) (JObj options'),
               snd (callback_as_options options callback))
        \<and> lookup options' ''ordered'' =
            (if typeof options = ''function'' then JUndefined
             else if \<not> truthy options \<or> strict_eq (js_get st options ''keepGoing'') (JBool True)
             then JBool False else js_get st options ''ordered'')))
   \<and> (\<not> isArray doc \<and> a < length st \<and> st ! a = [] \<and> b < length st \<and> st ! b = [(''ordered'', JBool True)] \<longrightarrow>
        Collection_insert st this doc (JRef a) JUndefined =
          Inr (st, InsertManyOperation this (JArr [doc]) (JObj []), JUndefined)
        \<and> Collection_insertMany st this (JArr [doc]) (JRef b) JUndefined =
          (st, InsertManyOperation this (JArr [doc]) (JObj [(''ordered'', JBool True)]), JUndefined))"
proof (intro conjI impI)
  assume a: "typeof options = ''function'' \<or> \<not> truthy options \<or> plain_object st options"
  show "\<exists>st' options'.
        Collection_insert st this docs options callback =
          Inr (st', InsertManyOperation this (if isArray docs then docs else JArr [docs]) (JObj options'),
               snd (callback_as_options options callback))
        \<and> lookup options' ''ordered'' =
            (if typeof options = ''function'' then JUndefined
             else if \<not> truthy options \<or> strict_eq (js_get st options ''keepGoing'') (JBool True)
             then JBool False else js_get st options ''ordered'')"
  proof (cases "typeof options = ''function''")
    case True
    then show ?thesis
      by (simp add: Collection_insert_def Collection_insertMany_def callback_as_options_def js_or_def
          strict_eq_def lookup_def Object_assign_def)
  next
    case notfun: False
    show ?thesis
    proof (cases "truthy options")
      case False
      with notfun show ?thesis
        by (simp add: Collection_insert_def Collection_insertMany_def callback_as_options_def js_or_def
            strict_eq_def lookup_def Object_assign_def)
    next
      case True
      with a notfun have "plain_object st options" by simp
      then show ?thesis using True
        by (cases options)
           (auto simp: Collection_insert_def Collection_insertMany_def callback_as_options_def js_or_def
            strict_eq_def lookup_Object_assign_own lookup_update_same lookup_clearjunk deref_def)
    qed
  qed
next
  assume "\<not> isArray doc \<and> a < length st \<and> st ! a = [] \<and> b < length st
          \<and> st ! b = [(''ordered'', JBool True)]"
  then show "Collection_insert st this doc (JRef a) JUndefined =
          Inr (st, InsertManyOperation this (JArr [doc]) (JObj []), JUndefined)"
    by (simp add: Collection_insert_def Collection_insertMany_def callback_as_options_def js_or_def
        strict_eq_def lookup_def Object_assign_def deref_def)
next
  assume "\<not> isArray doc \<and> a < length st \<and> st ! a = [] \<and> b < length st
          \<and> st ! b = [(''ordered'', JBool True)]"
  then show "Collection_insertMany st this (JArr [doc]) (JRef b) JUndefined =
          (st, InsertManyOperation this (JArr [doc]) (JObj [(''ordered'', JBool True)]), JUndefined)"
    by (simp add: Collection_insertMany_def callback_as_options_def Object_assign_def deref_def)
qed

text \<open>
  Claim C5 (amended). \<^verbatim>\<open>findAndModify\<close> hands its operation a fresh copy of the
  options whose read preference is primary, whatever the caller supplied and whatever
  the collection has configured. \<^verbatim>\<open>group\<close> hands its operation the options object of
  the caller itself, untouched, with the read preference the caller put there.
\<close>

theorem findAndModify_forces_primary_group_passes_options:
  "(\<exists>query sort doc options' callback'.
      Collection_findAndModify st this arguments =
        (st, FindAndModifyOperation this query sort doc (JObj options'), callback')
      \<and> lookup options' ''readPreference'' = ReadPreference_PRIMARY)
   \<and> (truthy options \<and> typeof options \<noteq> ''function'' \<longrightarrow>
      (\<exists>keys' reduce' finalize'.
        Collection_group st this [keys, condition, initial, reduce, finalize, command, options] =
          (st, GroupOperation this keys' condition initial reduce' finalize' options, JUndefined)
        \<and> Collection_group st this [keys, condition, initial, reduce, finalize, command, options, JFunc done] =
          (st, GroupOperation this keys' condition initial reduce' finalize' options, JFunc done)))"
proof (intro conjI impI)
  show "\<exists>query sort doc options' callback'.
      Collection_findAndModify st this arguments =
        (st, FindAndModifyOperation this query sort doc (JObj options'), callback')
      \<and> lookup options' ''readPreference'' = ReadPreference_PRIMARY"
    by (simp add: Collection_findAndModify_def Let_def lookup_update_same split: prod.splits)
next
  assume "truthy options \<and> typeof options \<noteq> ''function''"
  then show "\<exists>keys' reduce' finalize'.
        Collection_group st this [keys, condition, initial, reduce, finalize, command, options] =
          (st, GroupOperation this keys' condition initial reduce' finalize' options, JUndefined)
        \<and> Collection_group st this [keys, condition, initial, reduce, finalize, command, options, JFunc done] =
          (st, GroupOperation this keys' condition initial reduce' finalize' options, JFunc done)"
    by (simp add: Collection_group_def arg_def pop_callback_def js_or_def Let_def)
qed

text \<open>
  Claim C7 (amended). \<^verbatim>\<open>bulkWrite\<close> throws its invalid-argument error exactly when
  the operations are not an array; for every array, the empty one included, it builds a
  \<^verbatim>\<open>BulkWriteOperation\<close> on it.
\<close>

theorem bulkWrite_throws_iff_not_array:
  "Collection_bulkWrite st this operations options callback =
     (if isArray operations
      then Inr (st, BulkWriteOperation this operations
                      (js_or (fst (callback_as_options options callback)) (JObj [(''ordered'', JBool True)])),
                snd (callback_as_options options callback))
      else Inl (MongoError_create ''operations must be an array of documents''))"
  by (simp add: Collection_bulkWrite_def Let_def split: prod.splits)

text \<open>
  Claim C8. \<^verbatim>\<open>rename\<close> always constructs its operation with options whose read
  preference is primary. So does \<^verbatim>\<open>dropIndex\<close>, for every call whose options are an
  object or are left out. Neither looks at the collection's read preference or at the one
  in the caller's options.
\<close>

theorem rename_dropIndex_force_primary:
  "(\<exists>options' callback'.
      Collection_rename st this newName options callback =
        (st, RenameOperation this newName options', callback')
      \<and> js_get st options' ''readPreference'' = ReadPreference_PRIMARY)
   \<and> ((\<not> truthy (dropIndex_options arguments) \<or> plain_object st (dropIndex_options arguments)) \<longrightarrow>
      (\<exists>st' options' callback'.
        Collection_dropIndex st this arguments =
          Inr (st', DropIndexOperation this (arg arguments 0) options', callback')
        \<and> js_get st' options' ''readPreference'' = ReadPreference_PRIMARY))"
proof (intro conjI impI)
  show "\<exists>options' callback'.
      Collection_rename st this newName options callback =
        (st, RenameOperation this newName options', callback')
      \<and> js_get st options' ''readPreference'' = ReadPreference_PRIMARY"
    by (simp add: Collection_rename_def Let_def Object_assign_def lookup_update_same lookup_clearjunk
        split: prod.splits)
next
  assume ok: "\<not> truthy (dropIndex_options arguments) \<or> plain_object st (dropIndex_options arguments)"
  obtain args cb where pc: "pop_callback (drop (Suc 0) arguments) = (args, cb)"
    by (cases "pop_callback (drop (Suc 0) arguments)")
  show "\<exists>st' options' callback'.
        Collection_dropIndex st this arguments =
          Inr (st', DropIndexOperation this (arg arguments 0) options', callback')
        \<and> js_get st' options' ''readPreference'' = ReadPreference_PRIMARY"
  proof (cases args)
    case Nil
    then show ?thesis
      by (simp add: Collection_dropIndex_def pc lookup_clearjunk lookup_def)
  next
    case (Cons x xs)
    with ok pc have x: "\<not> truthy x \<or> plain_object st x"
      by (simp add: dropIndex_options_def)
    show ?thesis
    proof (cases "truthy x")
      case False
      then show ?thesis
        by (simp add: Collection_dropIndex_def pc Cons js_or_def lookup_clearjunk lookup_def)
    next
      case True
      with x have "plain_object st x" by simp
      then show ?thesis using True
        by (cases x)
           (simp_all add: Collection_dropIndex_def pc Cons js_or_def lookup_update_same
              lookup_clearjunk deref_def)
    qed
  qed
qed

section \<open>Concrete calls\<close>

text \<open>
  The end-to-end scenario of the specification,
  \<^verbatim>\<open>find({}, { projection: ['a'], timeout: true })\<close> on \<^verbatim>\<open>db.coll\<close>: the command has
  \<^verbatim>\<open>fields: { a: 1 }\<close> and \<^verbatim>\<open>noCursorTimeout: true\<close>.
\<close>

lemma find_projection_timeout_scenario:
  "Collection_find plain_helpers [] db_coll
     [JObj [], JObj [(''projection'', JArr [JStr ''a'']), (''timeout'', JBool True)]] =
     Inr (FindOperation db_coll (''db'', ''coll'')
            [(''find'', JStr ''db.coll''), (''limit'', JNum 0), (''skip'', JNum 0), (''query'', JObj []),
             (''projection'', JArr [JStr ''a'']), (''timeout'', JBool True), (''raw'', JUndefined),
             (''hint'', JNull), (''slaveOk'', JBool False), (''readPreference'', JUndefined),
             (''noCursorTimeout'', JBool True), (''fields'', JObj [(''a'', JNum 1)])]
            [(''projection'', JArr [JStr ''a'']), (''timeout'', JBool True), (''skip'', JNum 0),
             (''limit'', JNum 0), (''raw'', JUndefined), (''hint'', JNull), (''slaveOk'', JBool False),
             (''readPreference'', JUndefined), (''noCursorTimeout'', JBool True),
             (''db'', JObj [(''slaveOk'', JBool False)])])"
  by code_simp



text \<open>
  \<^verbatim>\<open>find\<close> of the five-byte buffer \<^verbatim>\<open>05 00 00 00 00\<close>, whose prefix is its length.
\<close>

theorem find_buffer_length_prefix_witness:
  "length [JBuf [5, 0, 0, 0, 0]] \<le> 2
   \<and> arg [JBuf [5, 0, 0, 0, 0]] 0 = JBuf [5, 0, 0, 0, 0]
   \<and> typeof (arg [JBuf [5, 0, 0, 0, 0]] 1) \<noteq> ''function''
   \<and> le_int32 [5, 0, 0, 0, 0] = int (length [5, 0, 0, 0, 0 :: 8 word])
   \<and> proto_free [] (find_options [JBuf [5, 0, 0, 0, 0]])
   \<and> find_selector [] (arg [JBuf [5, 0, 0, 0, 0]] 0) = Inr (JBuf [5, 0, 0, 0, 0])
   \<and> (\<exists>op. Collection_find plain_helpers [] db_coll [JBuf [5, 0, 0, 0, 0]] = Inr op
         \<and> lookup (command_of op) ''query'' = JBuf [5, 0, 0, 0, 0])"
proof -
  have h: "length [JBuf [5, 0, 0, 0, 0]] \<le> 2"
    "arg [JBuf [5, 0, 0, 0, 0]] 0 = JBuf [5, 0, 0, 0, 0]"
    "typeof (arg [JBuf [5, 0, 0, 0, 0]] 1) \<noteq> ''function''"
    by (simp_all add: arg_def)
  have v: "le_int32 [5, 0, 0, 0, 0] = int (length [5, 0, 0, 0, 0 :: 8 word])"
    by (simp add: le_int32_def le_uint32_def byte_value_def)
  have p: "proto_free [] (find_options [JBuf [5, 0, 0, 0, 0]])"
    by (simp add: proto_free_def owns_def find_options_def arg_def keys_of_def)
  have o: "option_or [] (find_options [JBuf [5, 0, 0, 0, 0]]) ''query'' (JBuf [5, 0, 0, 0, 0])
             = JBuf [5, 0, 0, 0, 0]"
    by (simp add: option_or_def owns_def find_options_def arg_def keys_of_def)
  from find_buffer_length_prefix [OF h, of "[]" plain_helpers db_coll] v
  have "find_selector [] (arg [JBuf [5, 0, 0, 0, 0]] 0) = Inr (JBuf [5, 0, 0, 0, 0])
        \<and> (\<exists>op. Collection_find plain_helpers [] db_coll [JBuf [5, 0, 0, 0, 0]] = Inr op
               \<and> (proto_free [] (find_options [JBuf [5, 0, 0, 0, 0]]) \<longrightarrow>
                    lookup (command_of op) ''query''
                      = option_or [] (find_options [JBuf [5, 0, 0, 0, 0]]) ''query''
                          (JBuf [5, 0, 0, 0, 0])))"
    by (simp only: if_True)
  with p have "find_selector [] (arg [JBuf [5, 0, 0, 0, 0]] 0) = Inr (JBuf [5, 0, 0, 0, 0])"
    and "\<exists>op. Collection_find plain_helpers [] db_coll [JBuf [5, 0, 0, 0, 0]] = Inr op
           \<and> lookup (command_of op) ''query'' = JBuf [5, 0, 0, 0, 0]"
    by (simp_all only: o simp_thms)
  with h v p show ?thesis
    by (intro conjI)
qed

text \<open>
  \<^verbatim>\<open>find({}, { projection: ['__proto__'] })\<close>: the projection that reaches the
  command is the empty document, not \<^verbatim>\<open>{ __proto__: 1 }\<close>.
\<close>

theorem find_projection_loses_proto:
  "Collection_find plain_helpers [] db_coll
     [JObj [], JObj [(''projection'', JArr [JStr ''__proto__''])]] =
     Inr (FindOperation db_coll (''db'', ''coll'')
            [(''find'', JStr ''db.coll''), (''limit'', JNum 0), (''skip'', JNum 0), (''query'', JObj []),
             (''projection'', JArr [JStr ''__proto__'']), (''raw'', JUndefined), (''hint'', JNull),
             (''timeout'', JUndefined), (''slaveOk'', JBool False), (''readPreference'', JUndefined),
             (''fields'', JObj [])]
            [(''projection'', JArr [JStr ''__proto__'']), (''skip'', JNum 0), (''limit'', JNum 0),
             (''raw'', JUndefined), (''hint'', JNull), (''timeout'', JUndefined),
             (''slaveOk'', JBool False), (''readPreference'', JUndefined),
             (''db'', JObj [(''slaveOk'', JBool False)])])"
  by code_simp

text \<open>
  \<^verbatim>\<open>find({}, { projection: ['a', 'b'] })\<close>
\<close>

theorem find_projection_array_witness:
  "length [JObj [], JObj [(''projection'', JArr [JStr ''a'', JStr ''b''])]] \<le> 2
   \<and> find_selector [] (arg [JObj [], JObj [(''projection'', JArr [JStr ''a'', JStr ''b''])]] 0) = Inr (JObj [])
   \<and> js_or (js_get [] (find_options [JObj [], JObj [(''projection'', JArr [JStr ''a'', JStr ''b''])]]) ''projection'')
            (js_get [] (find_options [JObj [], JObj [(''projection'', JArr [JStr ''a'', JStr ''b''])]]) ''fields'')
        = JArr (map JStr [''a'', ''b''])
   \<and> (\<exists>op ps. Collection_find plain_helpers [] db_coll
                  [JObj [], JObj [(''projection'', JArr [JStr ''a'', JStr ''b''])]] = Inr op
         \<and> lookup (command_of op) ''fields'' = JObj ps
         \<and> map_of ps ''a'' = Some (JNum 1) \<and> map_of ps ''b'' = Some (JNum 1)
         \<and> map_of ps ''c'' = None)"
proof -
  let ?args = "[JObj [], JObj [(''projection'', JArr [JStr ''a'', JStr ''b''])]]"
  have h: "length ?args \<le> 2"
    "typeof (arg ?args 0) \<noteq> ''function''"
    "typeof (arg ?args 1) \<noteq> ''function''"
    "find_selector [] (arg ?args 0) = Inr (JObj [])"
    "js_or (js_get [] (find_options ?args) ''projection'') (js_get [] (find_options ?args) ''fields'')
       = JArr (map JStr [''a'', ''b''])"
    by (simp_all add: arg_def find_selector_def strict_eq_def lookup_def find_options_def js_or_def)
  show ?thesis
    using h find_projection_array [OF h, of plain_helpers db_coll]
    by auto
qed

text \<open>
  \<^verbatim>\<open>find(5)\<close>
\<close>

theorem find_selector_check_unreachable_witness:
  "length [JNum 5] \<le> 2 \<and> typeof (arg [JNum 5] 1) \<noteq> ''function''
   \<and> typeof (arg [JNum 5] 0) \<noteq> ''function'' \<and> typeof (arg [JNum 5] 0) \<noteq> ''object''
   \<and> proto_free [] (find_options [JNum 5])
   \<and> find_selector [] (JNum 5) = Inr (JObj []) \<and> typeof (JObj []) = ''object''
   \<and> Collection_find plain_helpers [] db_coll [JNum 5]
        \<noteq> Inl (MongoError_create ''query selector must be an object'')
   \<and> (\<exists>op. Collection_find plain_helpers [] db_coll [JNum 5] = Inr op
         \<and> lookup (command_of op) ''query'' = JObj [])"
proof -
  have h: "length [JNum 5] \<le> 2" "typeof (arg [JNum 5] 1) \<noteq> ''function''"
    "typeof (arg [JNum 5] 0) \<noteq> ''function''" "typeof (arg [JNum 5] 0) \<noteq> ''object''"
    by (simp_all add: arg_def)
  have s: "find_selector [] (JNum 5) = Inr (JObj [])"
    by (simp add: find_selector_def strict_eq_def lookup_def)
  have p: "proto_free [] (find_options [JNum 5])"
    by (simp add: proto_free_def owns_def find_options_def arg_def keys_of_def)
  have o: "option_or [] (find_options [JNum 5]) ''query'' (JObj []) = JObj []"
    by (simp add: option_or_def owns_def find_options_def arg_def keys_of_def)
  from find_selector_check_unreachable [of plain_helpers "[]" db_coll "[JNum 5]" "JNum 5"] h
  have "Collection_find plain_helpers [] db_coll [JNum 5]
          \<noteq> Inl (MongoError_create ''query selector must be an object'')"
    and "\<exists>op. Collection_find plain_helpers [] db_coll [JNum 5] = Inr op
           \<and> (proto_free [] (find_options [JNum 5]) \<longrightarrow>
                lookup (command_of op) ''query''
                  = option_or [] (find_options [JNum 5]) ''query'' (JObj []))"
    by blast+
  with h s p show ?thesis
    by (simp add: o)
qed

text \<open>
  \<^verbatim>\<open>insert({ a: 1 })\<close> with no options and no \<^verbatim>\<open>keepGoing\<close>: the options of the
  operation say \<^verbatim>\<open>ordered: false\<close>.
\<close>

theorem insert_without_options_is_unordered:
  "Collection_insert [] db_coll (JObj [(''a'', JNum 1)]) JUndefined JUndefined =
     Inr ([], InsertManyOperation db_coll (JArr [JObj [(''a'', JNum 1)]])
                (JObj [(''ordered'', JBool False)]), JUndefined)"
  by (simp add: Collection_insert_def Collection_insertMany_def callback_as_options_def js_or_def
      strict_eq_def lookup_def Object_assign_def)

text \<open>
  \<^verbatim>\<open>insert({ a: 1 }, {})\<close> beside \<^verbatim>\<open>insertMany([{ a: 1 }], { ordered: true })\<close>, the two
  options objects at the addresses 0 and 1 of the store.
\<close>

theorem insert_ordered_option_witness:
  "plain_object [[], [(''ordered'', JBool True)]] (JRef 0)
   \<and> (\<exists>st' options'.
        Collection_insert [[], [(''ordered'', JBool True)]] db_coll (JObj [(''a'', JNum 1)]) (JRef 0) JUndefined =
          Inr (st', InsertManyOperation db_coll (JArr [JObj [(''a'', JNum 1)]]) (JObj options'), JUndefined)
        \<and> lookup options' ''ordered'' = JUndefined)
   \<and> \<not> isArray (JObj [(''a'', JNum 1)])
   \<and> Collection_insert [[], [(''ordered'', JBool True)]] db_coll (JObj [(''a'', JNum 1)]) (JRef 0) JUndefined =
        Inr ([[], [(''ordered'', JBool True)]],
             InsertManyOperation db_coll (JArr [JObj [(''a'', JNum 1)]]) (JObj []), JUndefined)
   \<and> Collection_insertMany [[], [(''ordered'', JBool True)]] db_coll (JArr [JObj [(''a'', JNum 1)]]) (JRef 1)
          JUndefined =
        ([[], [(''ordered'', JBool True)]],
         InsertManyOperation db_coll (JArr [JObj [(''a'', JNum 1)]]) (JObj [(''ordered'', JBool True)]),
         JUndefined)"
  using insert_ordered_option
    [of "JRef 0" "[[], [(''ordered'', JBool True)]]" db_coll "JObj [(''a'', JNum 1)]" JUndefined
        "JObj [(''a'', JNum 1)]" 0 1]
  by (simp add: strict_eq_def lookup_def deref_def callback_as_options_def)

text \<open>
  \<^verbatim>\<open>group\<close> and \<^verbatim>\<open>findAndRemove\<close> called with \<^verbatim>\<open>readPreference: 'secondary'\<close> in
  the options: the operation gets options that still say secondary.
\<close>

theorem group_findAndRemove_keep_secondary:
  "Collection_group [] db_coll
      [JArr [], JObj [], JObj [], JFunc ''function (o, p) {}'', JNull, JBool True,
       JObj [(''readPreference'', JStr ''secondary'')]] =
     ([], GroupOperation db_coll (JArr []) (JObj []) (JObj []) (JStr ''function (o, p) {}'') JNull
            (JObj [(''readPreference'', JStr ''secondary'')]), JUndefined)
   \<and> Collection_findAndRemove [] db_coll
      [JObj [], JArr [], JObj [(''readPreference'', JStr ''secondary'')]] =
     Inr ([], FindAndModifyOperation db_coll (JObj []) (JArr []) JNull
                (JObj [(''readPreference'', JStr ''secondary''), (''remove'', JBool True)]), JUndefined)"
  by (simp add: Collection_group_def Collection_findAndRemove_def arg_def pop_callback_def js_or_def)

text \<open>
  \<^verbatim>\<open>findAndModify\<close> and \<^verbatim>\<open>group\<close> called with \<^verbatim>\<open>readPreference: 'secondary'\<close>.
\<close>

theorem findAndModify_forces_primary_group_passes_options_witness:
  "(\<exists>query sort doc options' callback'.
      Collection_findAndModify [] db_coll [JObj [], JArr [], JObj [], JObj [(''readPreference'', JStr ''secondary'')]] =
        ([], FindAndModifyOperation db_coll query sort doc (JObj options'), callback')
      \<and> lookup options' ''readPreference'' = ReadPreference_PRIMARY)
   \<and> truthy (JObj [(''readPreference'', JStr ''secondary'')])
   \<and> typeof (JObj [(''readPreference'', JStr ''secondary'')]) \<noteq> ''function''
   \<and> (\<exists>keys' reduce' finalize'.
        Collection_group [] db_coll
          [JArr [], JObj [], JObj [], JFunc ''function (o, p) {}'', JNull, JBool True,
           JObj [(''readPreference'', JStr ''secondary'')]] =
          ([], GroupOperation db_coll keys' (JObj []) (JObj []) reduce' finalize'
                 (JObj [(''readPreference'', JStr ''secondary'')]), JUndefined))"
proof -
  have h: "truthy (JObj [(''readPreference'', JStr ''secondary'')])
           \<and> typeof (JObj [(''readPreference'', JStr ''secondary'')]) \<noteq> ''function''"
    by simp
  from findAndModify_forces_primary_group_passes_options
    [of "[]" db_coll "[JObj [], JArr [], JObj [], JObj [(''readPreference'', JStr ''secondary'')]]"
        "JObj [(''readPreference'', JStr ''secondary'')]" "JArr []" "JObj []" "JObj []"
        "JFunc ''function (o, p) {}''" JNull "JBool True" "''done''"] h
  show ?thesis
    by blast
qed

text \<open>
  \<^verbatim>\<open>bulkWrite([])\<close>: the empty array is not rejected.
\<close>

theorem bulkWrite_empty_array_accepted:
  "Collection_bulkWrite [] db_coll (JArr []) JUndefined JUndefined =
     Inr ([], BulkWriteOperation db_coll (JArr []) (JObj [(''ordered'', JBool True)]), JUndefined)"
  by (simp add: Collection_bulkWrite_def callback_as_options_def js_or_def)

text \<open>
  \<^verbatim>\<open>rename\<close> and \<^verbatim>\<open>dropIndex\<close> called with options, at address 0 of the store, that say
  \<^verbatim>\<open>readPreference: 'secondary'\<close>.
\<close>

theorem rename_dropIndex_force_primary_witness:
  "(\<exists>options' callback'.
      Collection_rename [[(''readPreference'', JStr ''secondary'')]] db_coll (JStr ''other'') (JRef 0) JUndefined =
        ([[(''readPreference'', JStr ''secondary'')]], RenameOperation db_coll (JStr ''other'') options', callback')
      \<and> js_get [[(''readPreference'', JStr ''secondary'')]] options' ''readPreference'' = ReadPreference_PRIMARY)
   \<and> plain_object [[(''readPreference'', JStr ''secondary'')]] (dropIndex_options [JStr ''idx'', JRef 0])
   \<and> (\<exists>st' options' callback'.
        Collection_dropIndex [[(''readPreference'', JStr ''secondary'')]] db_coll [JStr ''idx'', JRef 0] =
          Inr (st', DropIndexOperation db_coll (JStr ''idx'') options', callback')
        \<and> js_get st' options' ''readPreference'' = ReadPreference_PRIMARY)"
  using rename_dropIndex_force_primary
    [of "[[(''readPreference'', JStr ''secondary'')]]" db_coll "JStr ''other''" "JRef 0" JUndefined
        "[JStr ''idx'', JRef 0]"]
  by (simp add: dropIndex_options_def pop_callback_def arg_def)

end
